theory Spec2Isabelle
  imports Main "HOL-Library.Multiset" "HOL-Library.AList" "HOL-Library.Sublist"
begin

section \<open>Python values shared by the model\<close>

text \<open>
  The module \<open>pathway.debug\<close> raises \<open>ValueError\<close> itself; \<open>KeyError\<close> and \<open>IndexError\<close> are
  what a subscript raises on a missing key and on an index out of range, and \<open>TypeError\<close>
  what Python raises when two values admit no comparison. An exception is a value of this
  type.
\<close>

datatype py_error = ValueError string | KeyError | IndexError | TypeError

text \<open>\<open>str(n)\<close> for a non-negative integer: its decimal digits.\<close>

definition digit_char :: "nat \<Rightarrow> char" where
  "digit_char d = ''0123456789'' ! d"

fun str_nat :: "nat \<Rightarrow> string" where
  "str_nat n = (if n < 10 then [digit_char n] else str_nat (n div 10) @ [digit_char (n mod 10)])"

declare str_nat.simps [simp del]

text \<open>
  \<open>any(x for x in xs if cond(x))\<close> tests the truth value of the elements that pass the
  filter, not the filter itself: an integer is true when it is not zero.
\<close>

definition any_truthy :: "int list \<Rightarrow> bool" where
  "any_truthy xs = list_ex (\<lambda>x. x \<noteq> 0) xs"

section \<open>The stream generator\<close>

text \<open>\<open>api.SnapshotEvent\<close>: the three events built by \<open>advance_time\<close>, \<open>insert\<close>, \<open>delete\<close>.\<close>

datatype ('k, 'v) snapshot_event =
    AdvanceTime int
  | Insert 'k "'v list"
  | Delete 'k "'v list"

text \<open>
  A row is the tuple \<open>(diff, key, values)\<close>. A Python \<open>dict\<close> is an association list in
  insertion order; a well-formed one has distinct keys. \<open>batches\<close> maps a timestamp to a
  batch, a batch maps a worker to its rows.
\<close>

type_synonym ('k, 'v) change = "int \<times> 'k \<times> 'v list"
type_synonym ('k, 'v) batch = "(int \<times> ('k, 'v) change list) list"
type_synonym ('k, 'v) batches = "(int \<times> ('k, 'v) batch) list"

definition wf_batches :: "('k, 'v) batches \<Rightarrow> bool" where
  "wf_batches batches =
     (distinct (map fst batches) \<and> list_all (\<lambda>(t, batch). distinct (map fst batch)) batches)"

text \<open>
  The class attributes \<open>_persistent_id\<close> (an \<open>itertools.count()\<close>, here its next value) and
  \<open>events\<close>, together with the log of the messages passed to \<open>warn\<close>.
\<close>

type_synonym ('k, 'v) registry = "string \<times> int \<Rightarrow> ('k, 'v) snapshot_event list option"

record ('k, 'v) stream_generator =
  persistent_id :: nat
  events :: "('k, 'v) registry"
  warnings :: "string list"

definition warn :: "string \<Rightarrow> ('k, 'v) stream_generator \<Rightarrow> ('k, 'v) stream_generator" where
  "warn msg st = st\<lparr>warnings := warnings st @ [msg]\<rparr>"

text \<open>The f-string \<open>f"_stream_generator_{n}"\<close>.\<close>

definition stream_name :: "nat \<Rightarrow> string" where
  "stream_name n = ''_stream_generator_'' @ str_nat n"

definition get_next_persistent_id ::
    "('k, 'v) stream_generator \<Rightarrow> string \<times> ('k, 'v) stream_generator" where
  "get_next_persistent_id st =
     (stream_name (persistent_id st), st\<lparr>persistent_id := Suc (persistent_id st)\<rparr>)"

definition negative_timestamp_msg :: string where
  "negative_timestamp_msg = ''negative timestamp cannot be used''"

definition backfill_msg :: string where
  "backfill_msg =
     ''rows with timestamp 0 are only backfilled and are not processed by output connectors''"

definition doubled_msg :: string where
  "doubled_msg = ''timestamps are required to be even; all timestamps will be doubled''"

definition unsupported_diff_msg :: string where
  "unsupported_diff_msg = ''only diffs of 1 and -1 are supported''"

text \<open>
  \<open>self.events[k].append(e)\<close> and \<open>self.events[k] += es\<close>: the subscript raises
  \<open>KeyError\<close> when the registry has no list under \<open>k\<close>.
\<close>

definition extend_events ::
    "string \<times> int \<Rightarrow> ('k, 'v) snapshot_event list \<Rightarrow> ('k, 'v) registry
      \<Rightarrow> py_error + ('k, 'v) registry" where
  "extend_events k evs reg =
     (case reg k of None \<Rightarrow> Inl KeyError | Some old \<Rightarrow> Inr (reg(k \<mapsto> old @ evs)))"

text \<open>
  The loops return the exception raised, if any, with the registry as it stands at that
  moment: the registry is mutated in place, so what was appended before a \<open>raise\<close> stays.
\<close>

fun advance_time_for_all_workers ::
    "string \<Rightarrow> int list \<Rightarrow> int \<Rightarrow> ('k, 'v) registry \<Rightarrow> py_error option \<times> ('k, 'v) registry" where
  "advance_time_for_all_workers pid [] timestamp reg = (None, reg)"
| "advance_time_for_all_workers pid (worker # workers) timestamp reg =
     (case extend_events (pid, worker) [AdvanceTime timestamp] reg of
        Inl e \<Rightarrow> (Some e, reg)
      | Inr reg' \<Rightarrow> advance_time_for_all_workers pid workers timestamp reg')"

text \<open>The loop \<open>for diff, key, values in changes\<close>; \<open>[event] * n\<close> is \<open>replicate\<close>.\<close>

fun add_changes ::
    "string \<Rightarrow> int \<Rightarrow> ('k, 'v) change list \<Rightarrow> ('k, 'v) registry
      \<Rightarrow> py_error option \<times> ('k, 'v) registry" where
  "add_changes pid worker [] reg = (None, reg)"
| "add_changes pid worker ((diff, key, values) # changes) reg =
     (if diff = 1 then
        (case extend_events (pid, worker) (replicate (nat diff) (Insert key values)) reg of
           Inl e \<Rightarrow> (Some e, reg)
         | Inr reg' \<Rightarrow> add_changes pid worker changes reg')
      else if diff = - 1 then
        (case extend_events (pid, worker) (replicate (nat (- diff)) (Delete key values)) reg of
           Inl e \<Rightarrow> (Some e, reg)
         | Inr reg' \<Rightarrow> add_changes pid worker changes reg')
      else (Some (ValueError unsupported_diff_msg), reg))"

text \<open>The loop \<open>for worker, changes in batch.items()\<close>.\<close>

fun add_batch ::
    "string \<Rightarrow> ('k, 'v) batch \<Rightarrow> ('k, 'v) registry \<Rightarrow> py_error option \<times> ('k, 'v) registry" where
  "add_batch pid [] reg = (None, reg)"
| "add_batch pid ((worker, changes) # rest) reg =
     (case add_changes pid worker changes reg of
        (Some e, reg') \<Rightarrow> (Some e, reg')
      | (None, reg') \<Rightarrow> add_batch pid rest reg')"

text \<open>The loop \<open>for timestamp in sorted(batches)\<close>, given the sorted timestamps.\<close>

fun add_timestamps ::
    "string \<Rightarrow> int list \<Rightarrow> ('k, 'v) batches \<Rightarrow> int list \<Rightarrow> ('k, 'v) registry
      \<Rightarrow> py_error option \<times> ('k, 'v) registry" where
  "add_timestamps pid workers batches [] reg = (None, reg)"
| "add_timestamps pid workers batches (timestamp # timestamps) reg =
     (case advance_time_for_all_workers pid workers timestamp reg of
        (Some e, reg') \<Rightarrow> (Some e, reg')
      | (None, reg') \<Rightarrow>
          (case map_of batches timestamp of
             None \<Rightarrow> (Some KeyError, reg')
           | Some batch \<Rightarrow>
               (case add_batch pid batch reg' of
                  (Some e, reg'') \<Rightarrow> (Some e, reg'')
                | (None, reg'') \<Rightarrow> add_timestamps pid workers batches timestamps reg'')))"

text \<open>
  \<open>workers\<close> and \<open>timestamps\<close> are Python sets. The order in which a set is iterated is
  not fixed by the language; the model iterates in order of first occurrence. Each worker
  owns its own list, so the registry built does not depend on that order.
\<close>

definition workers_of :: "('k, 'v) batches \<Rightarrow> int list" where
  "workers_of batches = remdups (concat (map (\<lambda>(t, batch). map fst batch) batches))"

definition double_timestamps :: "('k, 'v) batches \<Rightarrow> ('k, 'v) batches" where
  "double_timestamps batches = map (\<lambda>(t, batch). (2 * t, batch)) batches"

text \<open>
  \<open>StreamGenerator._table_from_dict\<close>. The table returned by \<open>read\<close> is identified by the
  persistent id and the schema it was given.
\<close>

definition table_from_dict ::
    "('k, 'v) batches \<Rightarrow> 's \<Rightarrow> ('k, 'v) stream_generator
      \<Rightarrow> (py_error + string \<times> 's) \<times> ('k, 'v) stream_generator" where
  "table_from_dict batches schema st0 =
     (let (pid, st1) = get_next_persistent_id st0;
          workers = workers_of batches;
          st2 = st1\<lparr>events := fold (\<lambda>worker reg. reg((pid, worker) \<mapsto> [])) workers (events st1)\<rparr>;
          timestamps = remdups (map fst batches)
      in if any_truthy (filter (\<lambda>t. t < 0) timestamps)
         then (Inl (ValueError negative_timestamp_msg), st2)
         else
           let st3 = (if any_truthy (filter (\<lambda>t. t = 0) timestamps)
                      then warn backfill_msg st2 else st2);
               odd = any_truthy (filter (\<lambda>t. t mod 2 = 1) timestamps);
               st4 = (if odd then warn doubled_msg st3 else st3);
               batches' = (if odd then double_timestamps batches else batches)
           in case add_timestamps pid workers batches' (sort (map fst batches')) (events st4) of
                (Some e, reg) \<Rightarrow> (Inl e, st4\<lparr>events := reg\<rparr>)
              | (None, reg) \<Rightarrow> (Inr (pid, schema), st4\<lparr>events := reg\<rparr>))"

text \<open>The class attributes as the class body leaves them; no warning has been emitted.\<close>

definition initial_generator :: "('k, 'v) stream_generator" where
  "initial_generator = \<lparr>persistent_id = 0, events = Map.empty, warnings = []\<rparr>"

section \<open>Data frames\<close>

text \<open>
  A pandas \<open>DataFrame\<close> as this module uses it: an index and named columns, each column
  with a dtype. \<open>pd.api.types.is_integer_dtype\<close> holds of an \<open>IntColumn\<close> only. An integer
  column has a NumPy integer dtype of fixed width: its entries lie in the range of the
  dtype, and arithmetic on the column is done in the dtype, so a result that is out of
  range wraps around modulo \<open>2 ^ width\<close>. The columns form a dictionary from names to
  columns, in column order; every column of a data frame has as many entries as the
  index.
\<close>

datatype int_dtype = Int8 | Int16 | Int32 | Int64 | UInt8 | UInt16 | UInt32 | UInt64

fun dtype_bits :: "int_dtype \<Rightarrow> nat" where
  "dtype_bits Int8 = 8"
| "dtype_bits Int16 = 16"
| "dtype_bits Int32 = 32"
| "dtype_bits Int64 = 64"
| "dtype_bits UInt8 = 8"
| "dtype_bits UInt16 = 16"
| "dtype_bits UInt32 = 32"
| "dtype_bits UInt64 = 64"

fun dtype_signed :: "int_dtype \<Rightarrow> bool" where
  "dtype_signed Int8 = True"
| "dtype_signed Int16 = True"
| "dtype_signed Int32 = True"
| "dtype_signed Int64 = True"
| "dtype_signed UInt8 = False"
| "dtype_signed UInt16 = False"
| "dtype_signed UInt32 = False"
| "dtype_signed UInt64 = False"

text \<open>The value the dtype stores for the integer \<open>x\<close>, and the integers it stores as they are.\<close>

definition wrap :: "int_dtype \<Rightarrow> int \<Rightarrow> int" where
  "wrap d x =
     (if dtype_signed d
      then (x + 2 ^ (dtype_bits d - 1)) mod 2 ^ dtype_bits d - 2 ^ (dtype_bits d - 1)
      else x mod 2 ^ dtype_bits d)"

definition fits :: "int_dtype \<Rightarrow> int \<Rightarrow> bool" where
  "fits d x =
     (if dtype_signed d then - (2 ^ (dtype_bits d - 1)) \<le> x \<and> x < 2 ^ (dtype_bits d - 1)
      else 0 \<le> x \<and> x < 2 ^ dtype_bits d)"

datatype 'a cell = IntCell int | ObjectCell 'a

datatype 'a column = IntColumn int_dtype "int list" | ObjectColumn "'a list"

fun column_cells :: "'a column \<Rightarrow> 'a cell list" where
  "column_cells (IntColumn d xs) = map IntCell xs"
| "column_cells (ObjectColumn xs) = map ObjectCell xs"

fun is_integer_dtype :: "'a column \<Rightarrow> bool" where
  "is_integer_dtype (IntColumn d xs) = True"
| "is_integer_dtype (ObjectColumn xs) = False"

fun in_range :: "'a column \<Rightarrow> bool" where
  "in_range (IntColumn d xs) = list_all (fits d) xs"
| "in_range (ObjectColumn xs) = True"

record 'a dataframe =
  df_index :: "'a column"
  df_columns :: "(string \<times> 'a column) list"

definition len_df :: "'a dataframe \<Rightarrow> nat" where
  "len_df df = length (column_cells (df_index df))"

definition wf_dataframe :: "'a dataframe \<Rightarrow> bool" where
  "wf_dataframe df =
     (distinct (map fst (df_columns df))
      \<and> in_range (df_index df)
      \<and> list_all (\<lambda>(name, col). length (column_cells col) = len_df df \<and> in_range col)
            (df_columns df))"

text \<open>\<open>name in df.columns\<close> and \<open>df[name] = column\<close>.\<close>

definition has_column :: "'a dataframe \<Rightarrow> string \<Rightarrow> bool" where
  "has_column df name = (name \<in> fst ` set (df_columns df))"

definition set_column :: "string \<Rightarrow> 'a column \<Rightarrow> 'a dataframe \<Rightarrow> 'a dataframe" where
  "set_column name col df = df\<lparr>df_columns := AList.update name col (df_columns df)\<rparr>"

text \<open>\<open>df.to_dict(orient="records")\<close>: one dictionary per row, from column name to cell.\<close>

definition to_records :: "'a dataframe \<Rightarrow> (string \<times> 'a cell) list list" where
  "to_records df =
     map (\<lambda>i. map (\<lambda>(name, col). (name, column_cells col ! i)) (df_columns df)) [0..<len_df df]"

section \<open>Validation of an ingested data frame\<close>

text \<open>
  Modelled from the spec: the constants \<open>api.TIME_PSEUDOCOLUMN\<close>, \<open>api.DIFF_PSEUDOCOLUMN\<close>
  and \<open>api.PANDAS_PSEUDOCOLUMNS\<close> are declared in \<open>pathway.internals.api\<close>, not in this
  file. The first two are the time and the diff column, which the docstring of
  \<open>table_from_pandas\<close> names \<open>__time__\<close> and \<open>__diff__\<close>; the third holds both, and
  whatever else it holds is the parameter \<open>extra\<close>.
\<close>

definition TIME_PSEUDOCOLUMN :: string where
  "TIME_PSEUDOCOLUMN = ''__time__''"

definition DIFF_PSEUDOCOLUMN :: string where
  "DIFF_PSEUDOCOLUMN = ''__diff__''"

definition PANDAS_PSEUDOCOLUMNS :: "string list \<Rightarrow> string list" where
  "PANDAS_PSEUDOCOLUMNS extra = TIME_PSEUDOCOLUMN # DIFF_PSEUDOCOLUMN # extra"

definition integers_only_msg :: "string \<Rightarrow> string" where
  "integers_only_msg name = ''Column '' @ name @ '' has to contain integers only.''"

definition negative_times_msg :: string where
  "negative_times_msg = ''Column '' @ TIME_PSEUDOCOLUMN @ '' cannot contain negative times.''"

definition diff_values_msg :: string where
  "diff_values_msg = ''Column '' @ DIFF_PSEUDOCOLUMN @ '' can only have 1 and -1 values.''"

definition non_integer_column :: "'a dataframe \<Rightarrow> string \<Rightarrow> bool" where
  "non_integer_column df name =
     (case map_of (df_columns df) name of None \<Rightarrow> False | Some col \<Rightarrow> \<not> is_integer_dtype col)"

text \<open>
  \<open>_validate_dataframe\<close>. The function returns nothing and works on the caller's data
  frame; the model returns the exception raised, if any, the data frame as the call
  leaves it, and the warnings emitted. Here \<open>any\<close> ranges over a Boolean series. After
  the first loop a pseudo-column that is present is an integer column, so the cases for
  object columns below are never reached.
\<close>

definition validate_dataframe ::
    "string list \<Rightarrow> 'a dataframe \<Rightarrow> py_error option \<times> 'a dataframe \<times> string list" where
  "validate_dataframe extra df =
     (case find (non_integer_column df) (PANDAS_PSEUDOCOLUMNS extra) of
        Some name \<Rightarrow> (Some (ValueError (integers_only_msg name)), df, [])
      | None \<Rightarrow>
          let (raised, df1, warned) =
                (case map_of (df_columns df) TIME_PSEUDOCOLUMN of
                   Some (IntColumn d ts) \<Rightarrow>
                     if list_ex (\<lambda>t. t < 0) ts then (True, df, [])
                     else if list_ex (\<lambda>t. t mod 2 = 1) ts
                     then (False,
                           set_column TIME_PSEUDOCOLUMN
                             (IntColumn d (map (\<lambda>t. wrap d (2 * t)) ts)) df,
                           [doubled_msg])
                     else (False, df, [])
                 | _ \<Rightarrow> (False, df, []))
          in if raised then (Some (ValueError negative_times_msg), df1, warned)
             else
               (case map_of (df_columns df1) DIFF_PSEUDOCOLUMN of
                  Some (IntColumn d diffs) \<Rightarrow>
                    if list_ex (\<lambda>d. d \<noteq> 1 \<and> d \<noteq> - 1) diffs
                    then (Some (ValueError diff_values_msg), df1, warned)
                    else (None, df1, warned)
                | _ \<Rightarrow> (None, df1, warned)))"

section \<open>Static tables and their cache\<close>

text \<open>
  Modelled from the spec: \<open>table_from_datasource\<close> and \<open>Table.with_universe_of\<close> are
  defined in \<open>pathway.internals\<close>, not in this file. A table built from a data source lives
  in a universe of its own, here the next unused number; \<open>with_universe_of\<close> gives a
  handle on the same table in the universe of the other. \<open>G\<close> holds the cache and the
  number of universes made so far.
\<close>

record ('s, 'a) table =
  tbl_schema :: 's
  tbl_data :: "'a dataframe"
  tbl_unsafe_trusted_ids :: bool
  tbl_universe :: nat

record ('s, 'a, 'h) parse_graph =
  static_tables_cache :: "'h \<Rightarrow> ('s, 'a) table option"
  universes :: nat

definition table_from_datasource ::
    "'s \<Rightarrow> 'a dataframe \<Rightarrow> bool \<Rightarrow> ('s, 'a, 'h) parse_graph
      \<Rightarrow> ('s, 'a) table \<times> ('s, 'a, 'h) parse_graph" where
  "table_from_datasource schema data unsafe_trusted_ids G =
     (\<lparr>tbl_schema = schema, tbl_data = data, tbl_unsafe_trusted_ids = unsafe_trusted_ids,
       tbl_universe = universes G\<rparr>,
      G\<lparr>universes := Suc (universes G)\<rparr>)"

definition with_universe_of :: "('s, 'a) table \<Rightarrow> ('s, 'a) table \<Rightarrow> ('s, 'a) table" where
  "with_universe_of t other = t\<lparr>tbl_universe := tbl_universe other\<rparr>"

text \<open>
  The functions this module imports and calls as they are: \<open>fingerprint\<close> (on a record
  and on the pair of the trust flag and the sorted hashes), \<open>schema_from_pandas\<close>,
  \<open>Schema.column_names\<close> and \<open>pd.read_parquet\<close>. They are parameters of the model.
\<close>

record ('s, 'a, 'h, 'p) externals =
  pseudocolumns_extra :: "string list"
  fingerprint_record :: "(string \<times> 'a cell) list \<Rightarrow> 'h"
  fingerprint_key :: "bool \<times> 'h list \<Rightarrow> 'h"
  schema_from_pandas :: "'a dataframe \<Rightarrow> string list option \<Rightarrow> string list \<Rightarrow> 's"
  column_names :: "'s \<Rightarrow> string list"
  read_parquet :: "'p \<Rightarrow> 'a dataframe"

definition exclusive_msg :: string where
  "exclusive_msg = ''parameters `schema` and `id_from` are mutually exclusive''"

definition schema_mismatch_msg :: string where
  "schema_mismatch_msg = ''schema does not match given dataframe''"

text \<open>
  \<open>ids_df\<close> before the pseudo-columns are added: the index as the one column \<open>id\<close>, or
  the columns \<open>df[id_from]\<close>, which raises \<open>KeyError\<close> when a name is no column.
\<close>

definition ids_dataframe :: "'a dataframe \<Rightarrow> string list option \<Rightarrow> py_error + 'a dataframe" where
  "ids_dataframe df id_from =
     (case id_from of
        None \<Rightarrow> Inr \<lparr>df_index = df_index df, df_columns = [(''id'', df_index df)]\<rparr>
      | Some names \<Rightarrow>
          (case those (map (\<lambda>name. map_option (Pair name) (map_of (df_columns df) name)) names) of
             None \<Rightarrow> Inl KeyError
           | Some selected \<Rightarrow> Inr \<lparr>df_index = df_index df, df_columns = selected\<rparr>))"

text \<open>The loop \<open>for column in api.PANDAS_PSEUDOCOLUMNS: if column in df.columns: ...\<close>.\<close>

fun add_pseudocolumns :: "string list \<Rightarrow> 'a dataframe \<Rightarrow> 'a dataframe \<Rightarrow> 'a dataframe" where
  "add_pseudocolumns [] df ids_df = ids_df"
| "add_pseudocolumns (name # names) df ids_df =
     (case map_of (df_columns df) name of
        None \<Rightarrow> add_pseudocolumns names df ids_df
      | Some col \<Rightarrow> add_pseudocolumns names df (set_column name col ids_df))"

text \<open>The key of the cache, from the validated data frame.\<close>

definition cache_key ::
    "('s, 'a, 'h :: linorder, 'p) externals \<Rightarrow> bool \<Rightarrow> 'a dataframe \<Rightarrow> 'h" where
  "cache_key env unsafe_trusted_ids ids_df =
     (let as_hashes = map (fingerprint_record env) (to_records ids_df)
      in fingerprint_key env (unsafe_trusted_ids, sort as_hashes))"

text \<open>
  The module-level \<open>table_from_pandas\<close>. The result is the exception or the table, the
  graph state, the caller's data frame as the call leaves it, and the warnings emitted.
\<close>

definition table_from_pandas ::
    "('s, 'a, 'h :: linorder, 'p) externals \<Rightarrow> 'a dataframe \<Rightarrow> string list option \<Rightarrow> bool
      \<Rightarrow> 's option \<Rightarrow> ('s, 'a, 'h) parse_graph
      \<Rightarrow> (py_error + ('s, 'a) table) \<times> ('s, 'a, 'h) parse_graph \<times> 'a dataframe \<times> string list" where
  "table_from_pandas env df id_from unsafe_trusted_ids schema G =
     (if id_from \<noteq> None \<and> schema \<noteq> None then (Inl (ValueError exclusive_msg), G, df, [])
      else
        let pseudocolumns = PANDAS_PSEUDOCOLUMNS (pseudocolumns_extra env);
            ordinary_columns_names =
              filter (\<lambda>column. column \<notin> set pseudocolumns) (map fst (df_columns df))
        in case (case schema of
                   None \<Rightarrow> Inr (schema_from_pandas env df id_from pseudocolumns)
                 | Some s \<Rightarrow>
                     if ordinary_columns_names \<noteq> column_names env s
                     then Inl (ValueError schema_mismatch_msg) else Inr s) of
             Inl e \<Rightarrow> (Inl e, G, df, [])
           | Inr schema1 \<Rightarrow>
               (case validate_dataframe (pseudocolumns_extra env) df of
                  (Some e, df1, warned) \<Rightarrow> (Inl e, G, df1, warned)
                | (None, df1, warned) \<Rightarrow>
                    (case ids_dataframe df1 id_from of
                       Inl e \<Rightarrow> (Inl e, G, df1, warned)
                     | Inr ids_df0 \<Rightarrow>
                         let ids_df = add_pseudocolumns pseudocolumns df1 ids_df0;
                             key = cache_key env unsafe_trusted_ids ids_df;
                             (ret, G1) = table_from_datasource schema1 df1 unsafe_trusted_ids G
                         in (case static_tables_cache G1 key of
                               Some cached \<Rightarrow> (Inr (with_universe_of ret cached), G1, df1, warned)
                             | None \<Rightarrow>
                                 (Inr ret,
                                  G1\<lparr>static_tables_cache := (static_tables_cache G1)(key \<mapsto> ret)\<rparr>,
                                  df1, warned)))))"

text \<open>
  \<open>table_from_parquet\<close>. The data frame read from the file is local to the call, so
  only the result, the graph state and the warnings are returned.
\<close>

definition table_from_parquet ::
    "('s, 'a, 'h :: linorder, 'p) externals \<Rightarrow> 'p \<Rightarrow> string list option \<Rightarrow> bool
      \<Rightarrow> ('s, 'a, 'h) parse_graph
      \<Rightarrow> (py_error + ('s, 'a) table) \<times> ('s, 'a, 'h) parse_graph \<times> string list" where
  "table_from_parquet env path id_from unsafe_trusted_ids G =
     (let df = read_parquet env path;
          (result, G1, df1, warned) = table_from_pandas env df None False None G
      in (result, G1, warned))"

section \<open>The stream generator on a data frame\<close>

text \<open>
  The functions \<open>StreamGenerator.table_from_pandas\<close> imports and calls as they are:
  \<open>schema_from_pandas\<close> with its \<open>exclude_columns\<close>, \<open>read_schema\<close> (the schema and the names
  of the value fields of the \<open>api_schema\<close>), \<open>api.ids_from_pandas\<close> (the key of an index
  entry) and \<open>api.denumpify\<close>.
\<close>

record ('s, 'a, 'k, 'v) stream_externals =
  schema_excluding :: "'a dataframe \<Rightarrow> string list \<Rightarrow> 's"
  read_schema :: "'s \<Rightarrow> 's \<times> string list"
  ids_from_pandas :: "'a dataframe \<Rightarrow> bool \<Rightarrow> string list option \<Rightarrow> 'a cell \<Rightarrow> 'k"
  denumpify :: "'a cell \<Rightarrow> 'v"

text \<open>
  \<open>if name not in df: df[name] = [n] * len(df)\<close>; pandas stores a list of Python integers
  as a column of dtype \<open>int64\<close>.
\<close>

definition add_missing_column :: "string \<Rightarrow> int \<Rightarrow> 'a dataframe \<Rightarrow> 'a dataframe" where
  "add_missing_column name n df =
     (if has_column df name then df
      else set_column name (IntColumn Int64 (replicate (len_df df) n)) df)"

fun int_entries :: "'a column \<Rightarrow> int list option" where
  "int_entries (IntColumn d xs) = Some xs"
| "int_entries (ObjectColumn xs) = None"

text \<open>
  The values of row \<open>i\<close>: \<open>row[column]\<close> raises \<open>KeyError\<close> when a value field names no
  column, which is \<open>None\<close> here.
\<close>

definition row_values ::
    "('a cell \<Rightarrow> 'v) \<Rightarrow> string list \<Rightarrow> 'a dataframe \<Rightarrow> nat \<Rightarrow> 'v list option" where
  "row_values convert value_fields df i =
     those (map (\<lambda>column. map_option (\<lambda>col. convert (column_cells col ! i))
                               (map_of (df_columns df) column)) value_fields)"

text \<open>
  The body of the loop over the rows, on the tuple \<open>(time, worker, diff, key, values)\<close> of a
  row: the batch of \<open>time\<close> and in it the list of \<open>worker\<close> are created when missing, and
  the row is appended.
\<close>

fun collect_rows ::
    "(int \<times> int \<times> int \<times> 'k \<times> 'v list option) list \<Rightarrow> ('k, 'v) batches
      \<Rightarrow> py_error + ('k, 'v) batches" where
  "collect_rows [] batches = Inr batches"
| "collect_rows ((time, worker, diff, key, row) # rows) batches =
     (case row of
        None \<Rightarrow> Inl KeyError
      | Some values \<Rightarrow>
          collect_rows rows
            (AList.map_default time [(worker, [(diff, key, values)])]
               (AList.map_default worker [(diff, key, values)] (\<lambda>changes. changes @ [(diff, key, values)]))
               batches))"

text \<open>
  \<open>StreamGenerator.table_from_pandas\<close>. The result is what \<open>_table_from_dict\<close> returns or
  the exception raised, the generator, and the caller's data frame as the call leaves it.
  \<open>_table_from_dict\<close> is typed for integer timestamps, workers and diffs, and so is its
  model: a data frame whose \<open>_time\<close>, \<open>_worker\<close> or \<open>_diff\<close> column is not an integer column
  is outside the model, which stops there with \<open>TypeError\<close>, after the missing columns
  were added.
\<close>

definition StreamGenerator_table_from_pandas ::
    "('s, 'a, 'k, 'v) stream_externals \<Rightarrow> 'a dataframe \<Rightarrow> string list option \<Rightarrow> bool \<Rightarrow> 's option
      \<Rightarrow> ('k, 'v) stream_generator
      \<Rightarrow> (py_error + string \<times> 's) \<times> ('k, 'v) stream_generator \<times> 'a dataframe" where
  "StreamGenerator_table_from_pandas env df id_from unsafe_trusted_ids schema st =
     (let schema0 = (case schema of
                       None \<Rightarrow> schema_excluding env df [''_time'', ''_diff'', ''_worker'']
                     | Some s \<Rightarrow> s);
          (schema1, value_fields) = read_schema env schema0;
          df1 = add_missing_column ''_time'' 2 df;
          df2 = add_missing_column ''_worker'' 0 df1;
          df3 = add_missing_column ''_diff'' 1 df2;
          ids = ids_from_pandas env df3 unsafe_trusted_ids id_from
      in case (Option.bind (map_of (df_columns df3) ''_time'') int_entries,
               Option.bind (map_of (df_columns df3) ''_worker'') int_entries,
               Option.bind (map_of (df_columns df3) ''_diff'') int_entries) of
           (Some ts, Some workers, Some diffs) \<Rightarrow>
             (case collect_rows
                     (map (\<lambda>i. (ts ! i, workers ! i, diffs ! i,
                                 ids (column_cells (df_index df3) ! i),
                                 row_values (denumpify env) value_fields df3 i))
                        [0..<len_df df3]) [] of
                Inl e \<Rightarrow> (Inl e, st, df3)
              | Inr batches \<Rightarrow>
                  (let (result, st1) = table_from_dict batches schema1 st
                   in (result, st1, df3)))
         | _ \<Rightarrow> (Inl TypeError, st, df3))"

section \<open>Printing a computed table\<close>

text \<open>
  An \<open>api.Value\<close> as the printing code tells values apart: \<open>None\<close>, an \<open>api.Pointer\<close>, a
  \<open>dict\<close> or a \<open>Json\<close>, and the rest; integers and strings are kept apart from the rest
  because the code makes them (the time and the diff of a row, the string form of a
  \<open>dict\<close>). A captured row is \<open>(key, values, time, diff)\<close>.
\<close>

datatype 'x "value" = VNone | VInt int | VStr string | VPointer 'x | VDict 'x | VJson 'x | VOther 'x

type_synonym 'x captured_row = "'x \<times> 'x value list \<times> int \<times> int"

text \<open>
  What the code takes from Python and from the engine: \<open>str(x)\<close>, the truth value of
  \<open>a == b\<close> and of \<open>a < b\<close> or the exception raised on the way, and
  \<open>api.squash_updates(captured).items()\<close>. They are parameters of the model.
\<close>

record 'x python =
  py_str :: "'x value \<Rightarrow> string"
  py_eq :: "'x value \<Rightarrow> 'x value \<Rightarrow> py_error + bool"
  py_lt :: "'x value \<Rightarrow> 'x value \<Rightarrow> py_error + bool"
  api_squash_updates :: "'x captured_row list \<Rightarrow> ('x \<times> 'x value list) list"

text \<open>
  An element of a sort key: a value as it is, or a \<open>_NoneAwareComparisonWrapper\<close> around
  its \<open>inner\<close>. The constructor of the wrapper replaces a \<open>dict\<close> or a \<open>Json\<close> by its
  string form.
\<close>

datatype 'x key_item = Plain "'x value" | Wrapper "'x value"

definition NoneAwareComparisonWrapper :: "'x python \<Rightarrow> 'x value \<Rightarrow> 'x key_item" where
  "NoneAwareComparisonWrapper P inner =
     (case inner of
        VDict d \<Rightarrow> Wrapper (VStr (py_str P inner))
      | VJson j \<Rightarrow> Wrapper (VStr (py_str P inner))
      | _ \<Rightarrow> Wrapper inner)"

text \<open>
  \<open>__eq__\<close> and \<open>__lt__\<close> of the wrapper, and the comparison of two plain values. A wrapper
  compared with something else returns \<open>NotImplemented\<close>: then \<open>==\<close> is false (two
  different objects) and \<open><\<close> raises \<open>TypeError\<close>.
\<close>

fun item_eq :: "'x python \<Rightarrow> 'x key_item \<Rightarrow> 'x key_item \<Rightarrow> py_error + bool" where
  "item_eq P (Wrapper a) (Wrapper b) = py_eq P a b"
| "item_eq P (Plain a) (Plain b) = py_eq P a b"
| "item_eq P (Wrapper a) (Plain b) = Inr False"
| "item_eq P (Plain a) (Wrapper b) = Inr False"

fun item_lt :: "'x python \<Rightarrow> 'x key_item \<Rightarrow> 'x key_item \<Rightarrow> py_error + bool" where
  "item_lt P (Wrapper a) (Wrapper b) =
     (if a = VNone then Inr (b \<noteq> VNone)
      else if b = VNone then Inr False
      else py_lt P a b)"
| "item_lt P (Plain a) (Plain b) = py_lt P a b"
| "item_lt P (Wrapper a) (Plain b) = Inl TypeError"
| "item_lt P (Plain a) (Wrapper b) = Inl TypeError"

text \<open>
  \<open><\<close> on two tuples: the first position where the elements are not equal decides, by
  \<open><\<close> on the two elements; when one tuple is a prefix of the other, the shorter is less.
\<close>

fun tuple_lt :: "'x python \<Rightarrow> 'x key_item list \<Rightarrow> 'x key_item list \<Rightarrow> py_error + bool" where
  "tuple_lt P [] [] = Inr False"
| "tuple_lt P [] (y # ys) = Inr True"
| "tuple_lt P (x # xs) [] = Inr False"
| "tuple_lt P (x # xs) (y # ys) =
     (case item_eq P x y of
        Inl e \<Rightarrow> Inl e
      | Inr True \<Rightarrow> tuple_lt P xs ys
      | Inr False \<Rightarrow> item_lt P x y)"

text \<open>
  \<open>sorted(rows, key=key)\<close>. The language fixes the result (the stable sort by \<open><\<close> on the
  keys) and that an exception raised by a comparison ends the sort; which pairs are
  compared is left to the implementation. The model inserts the rows one after the other
  into the rows sorted so far, kept in descending order, and asks whether the new key is
  \<open><\<close> the key of a row already there.
\<close>

fun insert_row ::
    "('key \<Rightarrow> 'key \<Rightarrow> py_error + bool) \<Rightarrow> 'key \<times> 'r \<Rightarrow> ('key \<times> 'r) list
      \<Rightarrow> py_error + ('key \<times> 'r) list" where
  "insert_row lt x [] = Inr [x]"
| "insert_row lt x (y # ys) =
     (case lt (fst x) (fst y) of
        Inl e \<Rightarrow> Inl e
      | Inr True \<Rightarrow> (case insert_row lt x ys of Inl e \<Rightarrow> Inl e | Inr zs \<Rightarrow> Inr (y # zs))
      | Inr False \<Rightarrow> Inr (x # y # ys))"

fun insert_rows ::
    "('key \<Rightarrow> 'key \<Rightarrow> py_error + bool) \<Rightarrow> ('key \<times> 'r) list \<Rightarrow> ('key \<times> 'r) list
      \<Rightarrow> py_error + ('key \<times> 'r) list" where
  "insert_rows lt [] placed = Inr placed"
| "insert_rows lt (x # xs) placed =
     (case insert_row lt x placed of Inl e \<Rightarrow> Inl e | Inr placed' \<Rightarrow> insert_rows lt xs placed')"

definition py_sorted ::
    "('key \<Rightarrow> 'key \<Rightarrow> py_error + bool) \<Rightarrow> ('r \<Rightarrow> 'key) \<Rightarrow> 'r list \<Rightarrow> py_error + 'r list" where
  "py_sorted lt key rows =
     (case insert_rows lt (map (\<lambda>row. (key row, row)) rows) [] of
        Inl e \<Rightarrow> Inl e
      | Inr placed \<Rightarrow> Inr (rev (map snd placed)))"

text \<open>The two \<open>_key\<close> functions; \<open>row[1][-2:]\<close> are the last two values of the row.\<close>

definition squashed_key :: "'x python \<Rightarrow> 'x \<times> 'x value list \<Rightarrow> 'x key_item list" where
  "squashed_key P row = map (NoneAwareComparisonWrapper P) (snd row)"

definition update_key :: "'x python \<Rightarrow> 'x \<times> 'x value list \<Rightarrow> 'x key_item list" where
  "update_key P row =
     map Plain (drop (length (snd row) - 2) (snd row)) @ map (NoneAwareComparisonWrapper P) (snd row)"

text \<open>
  \<open>itertools.islice(rows, n_rows)\<close>: all the rows for \<open>None\<close>; a stop below 0 or above
  \<open>sys.maxsize\<close> (\<open>2 ^ 63 - 1\<close> on a 64-bit platform) is refused when the slice is made.
\<close>

definition islice_msg :: string where
  "islice_msg = ''Stop argument for islice() must be None or an integer: 0 <= x <= sys.maxsize.''"

definition islice :: "'r list \<Rightarrow> int option \<Rightarrow> py_error + 'r list" where
  "islice rows n_rows =
     (case n_rows of
        None \<Rightarrow> Inr rows
      | Some n \<Rightarrow>
          if n < 0 \<or> n > 2 ^ 63 - 1 then Inl (ValueError islice_msg)
          else Inr (take (nat n) rows))"

text \<open>The local function \<open>_format\<close>, with the \<open>none\<close> and \<open>short_pointers\<close> it closes over.\<close>

fun is_pointer :: "'x value \<Rightarrow> bool" where
  "is_pointer (VPointer p) = True"
| "is_pointer v = False"

definition format_value :: "'x python \<Rightarrow> string \<Rightarrow> bool \<Rightarrow> 'x value \<Rightarrow> string" where
  "format_value P none short_pointers x =
     (if x = VNone then none
      else if is_pointer x \<and> short_pointers then
        (let s = py_str P x in if length s > 8 then take 8 s @ ''...'' else s)
      else py_str P x)"

text \<open>
  \<open>str.ljust\<close>, \<open>str.rstrip\<close> (on the whitespace of ASCII) and \<open>str.join\<close>. A string is
  a list of characters and its length their number.
\<close>

definition ljust :: "nat \<Rightarrow> string \<Rightarrow> string" where
  "ljust width s = s @ replicate (width - length s) CHR '' ''"

definition is_space :: "char \<Rightarrow> bool" where
  "is_space c = (of_char c \<in> {9 :: nat, 10, 11, 12, 13, 28, 29, 30, 31, 32})"

definition rstrip :: "string \<Rightarrow> string" where
  "rstrip s = rev (dropWhile is_space (rev s))"

fun join :: "string \<Rightarrow> string list \<Rightarrow> string" where
  "join sep [] = []"
| "join sep [x] = x"
| "join sep (x # y # ys) = x @ sep @ join sep (y # ys)"

text \<open>
  The end of \<open>_compute_and_print_internal\<close>, from \<open>max_lens\<close> on: the lines printed, or
  \<open>IndexError\<close> when a row has fewer cells than the header (\<open>row[i]\<close>) or the header is
  empty (\<open>max_lens[-1]\<close>). \<open>zip\<close> drops the cells beyond the header.
\<close>

definition print_rows :: "string list list \<Rightarrow> py_error + string list" where
  "print_rows data =
     (let width = length (hd data)
      in if list_ex (\<lambda>row. length row < width) data \<or> width = 0 then Inl IndexError
         else
           let max_lens = map (\<lambda>i. fold max (map (\<lambda>row. length (row ! i)) data) 0) [0..<width];
               max_lens1 = max_lens[width - 1 := 0]
           in Inr (map (\<lambda>row. rstrip (join '' | '' (map (\<lambda>(v, max_len). ljust max_len v)
                                                        (zip row max_lens1)))) data))"

text \<open>
  \<open>_compute_and_print_internal\<close>, given the captured stream of the table and the names of
  its columns. The result is the list of the lines printed, or the exception raised.
\<close>

definition compute_and_print_internal ::
    "'x python \<Rightarrow> 'x captured_row list \<Rightarrow> string list \<Rightarrow> bool \<Rightarrow> bool \<Rightarrow> bool \<Rightarrow> int option
      \<Rightarrow> py_error + string list" where
  "compute_and_print_internal P captured table_columns squash_updates include_id short_pointers n_rows =
     (let columns = (if squash_updates then table_columns
                     else table_columns @ [TIME_PSEUDOCOLUMN, DIFF_PSEUDOCOLUMN]);
          output_data = (if squash_updates then api_squash_updates P captured
                         else map (\<lambda>(key, values, time, diff). (key, values @ [VInt time, VInt diff]))
                                captured)
      in if columns = [] \<and> \<not> include_id then Inr []
         else
           let none = (if include_id \<or> length columns > 1 then '''' else ''None'');
               key = (if squash_updates then squashed_key P else update_key P)
           in case (case py_sorted (tuple_lt P) key output_data of
                      Inr rows \<Rightarrow> Inr rows
                    | Inl (ValueError msg) \<Rightarrow> Inr output_data
                    | Inl e \<Rightarrow> Inl e) of
                Inl e \<Rightarrow> Inl e
              | Inr output_data1 \<Rightarrow>
                  (case islice output_data1 n_rows of
                     Inl e \<Rightarrow> Inl e
                   | Inr output_data_truncated \<Rightarrow>
                       print_rows
                         ((if include_id then (if columns \<noteq> [] then '''' else ''id'') # columns
                           else columns)
                          # map (\<lambda>(key, values).
                                   (if include_id then [format_value P none short_pointers (VPointer key)]
                                    else [])
                                   @ map (format_value P none short_pointers) values)
                              output_data_truncated)))"

text \<open>\<open>compute_and_print\<close> and \<open>compute_and_print_update_stream\<close>.\<close>

definition compute_and_print ::
    "'x python \<Rightarrow> 'x captured_row list \<Rightarrow> string list \<Rightarrow> bool \<Rightarrow> bool \<Rightarrow> int option
      \<Rightarrow> py_error + string list" where
  "compute_and_print P captured table_columns include_id short_pointers n_rows =
     compute_and_print_internal P captured table_columns True include_id short_pointers n_rows"

definition compute_and_print_update_stream ::
    "'x python \<Rightarrow> 'x captured_row list \<Rightarrow> string list \<Rightarrow> bool \<Rightarrow> bool \<Rightarrow> int option
      \<Rightarrow> py_error + string list" where
  "compute_and_print_update_stream P captured table_columns include_id short_pointers n_rows =
     compute_and_print_internal P captured table_columns False include_id short_pointers n_rows"

section \<open>Concrete instances\<close>

text \<open>
  The graph before any table is built, and one choice of the imported functions, used
  where a statement is evaluated on an explicit input: a schema is the list of its column
  names, a hash is an integer, and the Parquet file holds a table of two rows.
\<close>

definition empty_graph :: "('s, 'a, 'h) parse_graph" where
  "empty_graph = \<lparr>static_tables_cache = Map.empty, universes = 0\<rparr>"

definition example_env :: "(string list, string, int, unit) externals" where
  "example_env =
     \<lparr>pseudocolumns_extra = [],
      fingerprint_record =
        (\<lambda>r. sum_list (map (\<lambda>(name, c). int (length name)
                               + (case c of IntCell i \<Rightarrow> 31 * i | ObjectCell s \<Rightarrow> int (length s))) r)),
      fingerprint_key =
        (\<lambda>(flag, hashes). (if flag then 1 else 0) + 2 * foldr (\<lambda>h acc. h + 1000 * acc) hashes 0),
      schema_from_pandas =
        (\<lambda>df id_from exclude. filter (\<lambda>c. c \<notin> set exclude) (map fst (df_columns df))),
      column_names = (\<lambda>s. s),
      read_parquet =
        (\<lambda>path. \<lparr>df_index = IntColumn Int64 [0, 1], df_columns = [(''a'', ObjectColumn [''x'', ''y''])]\<rparr>)\<rparr>"

text \<open>
  Data frames: two rows with the default index; the same rows in the other order, each
  with its index entry; the first with another index entry; and two frames of one row
  that differ in the time of the row only.
\<close>

definition df_two_rows :: "string dataframe" where
  "df_two_rows = \<lparr>df_index = IntColumn Int64 [0, 1], df_columns = [(''a'', ObjectColumn [''x'', ''y''])]\<rparr>"



definition df_time_1 :: "string dataframe" where
  "df_time_1 =
     \<lparr>df_index = IntColumn Int64 [0],
      df_columns = [(''a'', ObjectColumn [''x'']), (''__time__'', IntColumn Int64 [1])]\<rparr>"

definition df_time_2 :: "string dataframe" where
  "df_time_2 =
     \<lparr>df_index = IntColumn Int64 [0],
      df_columns = [(''a'', ObjectColumn [''x'']), (''__time__'', IntColumn Int64 [2])]\<rparr>"

text \<open>A data frame whose time column holds an odd and a negative value.\<close>

definition df_time_negative_odd :: "string dataframe" where
  "df_time_negative_odd =
     \<lparr>df_index = IntColumn Int64 [0, 1],
      df_columns = [(''a'', ObjectColumn [''x'', ''y'']), (''__time__'', IntColumn Int64 [- 2, 3])]\<rparr>"

text \<open>A data frame whose diff column holds a 2, and one of the stream generator's kind.\<close>

definition df_diff_2 :: "string dataframe" where
  "df_diff_2 =
     \<lparr>df_index = IntColumn Int64 [0, 1],
      df_columns = [(''a'', ObjectColumn [''x'', ''y'']), (''__diff__'', IntColumn Int64 [1, 2])]\<rparr>"

definition example_stream_env :: "(string list, string, int, string) stream_externals" where
  "example_stream_env =
     \<lparr>schema_excluding = (\<lambda>df exclude. filter (\<lambda>c. c \<notin> set exclude) (map fst (df_columns df))),
      read_schema = (\<lambda>s. (s, s)),
      ids_from_pandas = (\<lambda>df unsafe_trusted_ids id_from c. case c of IntCell i \<Rightarrow> i | ObjectCell s \<Rightarrow> 0),
      denumpify = (\<lambda>c. case c of IntCell i \<Rightarrow> ''int'' | ObjectCell s \<Rightarrow> s)\<rparr>"

text \<open>
  One choice of what the printing code takes from Python, on values whose payload is their
  printed form. \<open>None\<close>, integers and strings compare as in Python: two integers or two
  strings by their order, an integer with a string is unequal and has no \<open><\<close>
  (\<open>TypeError\<close>). A \<open>VOther\<close> stands for a NumPy array of more than one element: \<open>==\<close> and
  \<open><\<close> work element by element, and the truth value of their result is a \<open>ValueError\<close>.
  The captured stream is taken to hold insertions of distinct keys only, so squashing it
  keeps every row.
\<close>

definition str_int :: "int \<Rightarrow> string" where
  "str_int i = (if i < 0 then ''-'' @ str_nat (nat (- i)) else str_nat (nat i))"

fun str_lt :: "string \<Rightarrow> string \<Rightarrow> bool" where
  "str_lt [] [] = False"
| "str_lt [] (d # t) = True"
| "str_lt (c # s) [] = False"
| "str_lt (c # s) (d # t) =
     (if c = d then str_lt s t else (of_char c :: nat) < of_char d)"

definition ambiguous_msg :: string where
  "ambiguous_msg =
     ''The truth value of an array with more than one element is ambiguous. Use a.any() or a.all()''"

fun example_str :: "string value \<Rightarrow> string" where
  "example_str VNone = ''None''"
| "example_str (VInt i) = str_int i"
| "example_str (VStr s) = s"
| "example_str (VPointer s) = s"
| "example_str (VDict s) = s"
| "example_str (VJson s) = s"
| "example_str (VOther s) = s"

fun is_other :: "'x value \<Rightarrow> bool" where
  "is_other (VOther x) = True"
| "is_other v = False"

definition example_eq :: "string value \<Rightarrow> string value \<Rightarrow> py_error + bool" where
  "example_eq a b =
     (if is_other a \<or> is_other b then Inl (ValueError ambiguous_msg) else Inr (a = b))"

definition example_lt :: "string value \<Rightarrow> string value \<Rightarrow> py_error + bool" where
  "example_lt a b =
     (case a of
        VInt x \<Rightarrow> (case b of VInt y \<Rightarrow> Inr (x < y) | _ \<Rightarrow> Inl TypeError)
      | VStr x \<Rightarrow> (case b of VStr y \<Rightarrow> Inr (str_lt x y) | _ \<Rightarrow> Inl TypeError)
      | VPointer x \<Rightarrow> (case b of VPointer y \<Rightarrow> Inr (str_lt x y) | _ \<Rightarrow> Inl TypeError)
      | VOther x \<Rightarrow> (case b of VOther y \<Rightarrow> Inl (ValueError ambiguous_msg) | _ \<Rightarrow> Inl TypeError)
      | _ \<Rightarrow> Inl TypeError)"

definition example_python :: "string python" where
  "example_python =
     \<lparr>py_str = example_str, py_eq = example_eq, py_lt = example_lt,
      api_squash_updates = map (\<lambda>(key, values, time, diff). (key, values))\<rparr>"

text \<open>
  A second choice, where a \<open>VOther\<close> stands for a value of a type that defines no order,
  as \<open>complex\<close> does: \<open>==\<close> tells two of them apart and \<open><\<close> raises \<open>TypeError\<close>.
\<close>

definition unordered_lt :: "string value \<Rightarrow> string value \<Rightarrow> py_error + bool" where
  "unordered_lt a b = (if is_other a \<or> is_other b then Inl TypeError else example_lt a b)"

definition unordered_python :: "string python" where
  "unordered_python =
     \<lparr>py_str = example_str, py_eq = (\<lambda>a b. Inr (a = b)), py_lt = unordered_lt,
      api_squash_updates = map (\<lambda>(key, values, time, diff). (key, values))\<rparr>"

text \<open>
  Captured streams of a table with the single column \<open>a\<close>: one row holding \<open>None\<close>, and two
  rows holding a \<open>VOther\<close> each, the one printed as \<open>[3 4]\<close> arriving before the one printed
  as \<open>[1 2]\<close>.
\<close>

definition captured_none :: "string captured_row list" where
  "captured_none = [(''^A'', [VNone], 0, 1)]"

definition captured_others :: "string captured_row list" where
  "captured_others = [(''^A'', [VOther ''[3 4]''], 0, 1), (''^B'', [VOther ''[1 2]''], 0, 1)]"


definition df_time_int64 :: "string dataframe" where
  "df_time_int64 =
     \<lparr>df_index = IntColumn Int64 [0],
      df_columns = [(''a'', ObjectColumn [''x'']),
                    (''__time__'', IntColumn Int64 [4611686018427387905])]\<rparr>"

text \<open>
  Two rows holding a \<open>VOther\<close> each, printed as the complex numbers \<open>(3+4j)\<close> and
  \<open>(1+2j)\<close>, and two rows holding the integer 1 and the string \<open>a\<close>.
\<close>

definition captured_complex :: "string captured_row list" where
  "captured_complex = [(''^A'', [VOther ''(3+4j)''], 0, 1), (''^B'', [VOther ''(1+2j)''], 0, 1)]"

definition captured_mixed :: "string captured_row list" where
  "captured_mixed = [(''^A'', [VInt 1], 0, 1), (''^B'', [VStr ''a''], 0, 1)]"

section \<open>Notions for the statements about the stream generator\<close>

text \<open>
  Notions used to state what the builder leaves in the registry. \<open>extend_all pid W f\<close>
  appends \<open>f w\<close> to the list of every worker \<open>w\<close> of \<open>W\<close> in the stream \<open>pid\<close>.
\<close>

definition extend_all ::
  "string \<Rightarrow> int set \<Rightarrow> (int \<Rightarrow> ('k, 'v) snapshot_event list) \<Rightarrow> ('k, 'v) registry \<Rightarrow> ('k, 'v) registry" where
  "extend_all pid W f reg =
     (\<lambda>(p, w). if p = pid \<and> w \<in> W then map_option (\<lambda>old. old @ f w) (reg (p, w)) else reg (p, w))"

text \<open>
  The diffs the builder accepts.
\<close>

definition valid_change :: "('k, 'v) change \<Rightarrow> bool" where
  "valid_change c = (fst c = 1 \<or> fst c = - 1)"

text \<open>
  The event a row stands for (the builder's \<open>if diff == 1 ... elif diff == -1\<close>).
\<close>

fun change_events :: "('k, 'v) change \<Rightarrow> ('k, 'v) snapshot_event list" where
  "change_events (diff, key, values) =
     (if diff = 1 then [Insert key values] else if diff = - 1 then [Delete key values] else [])"

text \<open>
  The builder as a flat sequence of steps: a barrier for every worker, or one row of one
  worker. A step is valid unless it is a row whose diff the builder rejects.
\<close>

datatype ('k, 'v) action = Barrier int | Row int "('k, 'v) change"

fun valid_action :: "('k, 'v) action \<Rightarrow> bool" where
  "valid_action (Barrier t) = True"
| "valid_action (Row w c) = valid_change c"

fun action_events :: "int \<Rightarrow> ('k, 'v) action \<Rightarrow> ('k, 'v) snapshot_event list" where
  "action_events w (Barrier t) = [AdvanceTime t]"
| "action_events w (Row w' c) = (if w' = w then change_events c else [])"

text \<open>
  The steps of one batch, workers in dictionary order, rows in list order.
\<close>

definition batch_actions :: "('k, 'v) batch \<Rightarrow> ('k, 'v) action list" where
  "batch_actions batch = concat (map (\<lambda>(w, cs). map (Row w) cs) batch)"

text \<open>
  \<open>batches[t]\<close>, and the steps of the whole loop over the timestamps \<open>ts\<close>.
\<close>

definition batch_at :: "('k, 'v) batches \<Rightarrow> int \<Rightarrow> ('k, 'v) batch" where
  "batch_at batches t = (case map_of batches t of None \<Rightarrow> [] | Some batch \<Rightarrow> batch)"

definition schedule :: "('k, 'v) batches \<Rightarrow> int list \<Rightarrow> ('k, 'v) action list" where
  "schedule batches ts = concat (map (\<lambda>t. Barrier t # batch_actions (batch_at batches t)) ts)"

text \<open>
  What a sequence of steps appends to the list of worker \<open>w\<close>.
\<close>

definition events_of :: "int \<Rightarrow> ('k, 'v) action list \<Rightarrow> ('k, 'v) snapshot_event list" where
  "events_of w acts = concat (map (action_events w) acts)"

text \<open>
  Some timestamp is negative; some timestamp is odd (Python's \<open>%\<close> is \<open>mod\<close>: its result
  has the sign of the divisor).
\<close>

definition has_negative :: "('k, 'v) batches \<Rightarrow> bool" where
  "has_negative batches = list_ex (\<lambda>t. t < 0) (map fst batches)"

definition has_odd :: "('k, 'v) batches \<Rightarrow> bool" where
  "has_odd batches = list_ex (\<lambda>t. t mod 2 = 1) (map fst batches)"

text \<open>
  The batch set the loop runs on, and the steps it takes when nothing stops it.
\<close>

definition normalised :: "('k, 'v) batches \<Rightarrow> ('k, 'v) batches" where
  "normalised batches = (if has_odd batches then double_timestamps batches else batches)"

definition full_schedule :: "('k, 'v) batches \<Rightarrow> ('k, 'v) action list" where
  "full_schedule batches = schedule (normalised batches) (sort (map fst (normalised batches)))"

text \<open>
  The rows of worker \<open>w\<close> at timestamp \<open>t\<close>: none when the worker is absent from that batch.
\<close>

definition rows_at :: "('k, 'v) batches \<Rightarrow> int \<Rightarrow> int \<Rightarrow> ('k, 'v) change list" where
  "rows_at batches t w =
     (case map_of batches t of None \<Rightarrow> []
      | Some batch \<Rightarrow> (case map_of batch w of None \<Rightarrow> [] | Some changes \<Rightarrow> changes))"

text \<open>
  Every row of the batch set has diff 1 or -1.
\<close>

definition valid_batches :: "('k, 'v) batches \<Rightarrow> bool" where
  "valid_batches batches =
     list_all (\<lambda>(t, batch). list_all (\<lambda>(w, changes). list_all valid_change changes) batch) batches"

text \<open>
  The timestamps of the barriers of an event sequence, in order.
\<close>

fun barrier_times :: "('k, 'v) snapshot_event list \<Rightarrow> int list" where
  "barrier_times [] = []"
| "barrier_times (AdvanceTime t # evs) = t # barrier_times evs"
| "barrier_times (e # evs) = barrier_times evs"

text \<open>
  The sequence of a worker when nothing fails: for each timestamp in ascending order the
  barrier, then the worker's rows of that timestamp in the order given.
\<close>

definition worker_sequence :: "('k, 'v) batches \<Rightarrow> int \<Rightarrow> ('k, 'v) snapshot_event list" where
  "worker_sequence batches w =
     concat (map (\<lambda>t. AdvanceTime t # concat (map change_events (rows_at batches t w)))
       (sort (map fst batches)))"

section \<open>Notions for the statements about data frames and static tables\<close>

text \<open>
  Every pseudo-column that is present is an integer column; the dtype and the entries of
  the time column, and the entries of the diff column, when they are integer columns.
\<close>

definition integer_pseudocolumns :: "string list \<Rightarrow> 'a dataframe \<Rightarrow> bool" where
  "integer_pseudocolumns extra df = (find (non_integer_column df) (PANDAS_PSEUDOCOLUMNS extra) = None)"

definition time_column :: "'a dataframe \<Rightarrow> (int_dtype \<times> int list) option" where
  "time_column df =
     (case map_of (df_columns df) TIME_PSEUDOCOLUMN of
        Some (IntColumn d ts) \<Rightarrow> Some (d, ts)
      | _ \<Rightarrow> None)"

definition diff_column :: "'a dataframe \<Rightarrow> int list option" where
  "diff_column df =
     (case map_of (df_columns df) DIFF_PSEUDOCOLUMN of
        Some (IntColumn d ds) \<Rightarrow> Some ds
      | _ \<Rightarrow> None)"

text \<open>
  The records \<open>table_from_pandas\<close> hashes: those of \<open>ids_df\<close>, taken after the validation
  and with the pseudo-columns added; \<open>None\<close> when the call raises before. The key is the
  fingerprint of the trust flag and the sorted hashes of the records.
\<close>

definition identity_records ::
    "string list \<Rightarrow> 'a dataframe \<Rightarrow> string list option \<Rightarrow> (string \<times> 'a cell) list list option" where
  "identity_records extra df id_from =
     (case validate_dataframe extra df of
        (Some e, df1, warned) \<Rightarrow> None
      | (None, df1, warned) \<Rightarrow>
          (case ids_dataframe df1 id_from of
             Inl e \<Rightarrow> None
           | Inr ids_df \<Rightarrow> Some (to_records (add_pseudocolumns (PANDAS_PSEUDOCOLUMNS extra) df1 ids_df))))"

definition key_of_records ::
    "('s, 'a, 'h :: linorder, 'p) externals \<Rightarrow> bool \<Rightarrow> (string \<times> 'a cell) list list \<Rightarrow> 'h" where
  "key_of_records env unsafe_trusted_ids records =
     fingerprint_key env (unsafe_trusted_ids, sort (map (fingerprint_record env) records))"


text \<open>
  The data frame with the three columns of the stream generator added where missing.
\<close>

definition with_stream_columns :: "'a dataframe \<Rightarrow> 'a dataframe" where
  "with_stream_columns df =
     add_missing_column ''_diff'' 1 (add_missing_column ''_worker'' 0 (add_missing_column ''_time'' 2 df))"

text \<open>
  The table and the graph after \<open>df_two_rows\<close> was built on the empty graph with the
  example functions.
\<close>

definition table_two_rows :: "(string list, string) table" where
  "table_two_rows = \<lparr>tbl_schema = [''a''], tbl_data = df_two_rows,
      tbl_unsafe_trusted_ids = False, tbl_universe = 0\<rparr>"

definition graph_after_two_rows :: "(string list, string, int) parse_graph" where
  "graph_after_two_rows = \<lparr>static_tables_cache = [66004 \<mapsto> table_two_rows], universes = 1\<rparr>"

section \<open>Notions for the statements about printing\<close>

text \<open>
  The parts of \<open>_compute_and_print_internal\<close> by name: the columns shown, the rows before
  the sort, the sort key, the outcome of the sort, the header, the cells of a row (the
  body of the loop over the rows), and the end of the function from \<open>islice\<close> on, given
  the text for \<open>None\<close> and the rows in the order to print.
\<close>

definition displayed_columns :: "string list \<Rightarrow> bool \<Rightarrow> string list" where
  "displayed_columns table_columns squash_updates =
     (if squash_updates then table_columns
      else table_columns @ [TIME_PSEUDOCOLUMN, DIFF_PSEUDOCOLUMN])"

definition captured_output ::
    "'x python \<Rightarrow> 'x captured_row list \<Rightarrow> bool \<Rightarrow> ('x \<times> 'x value list) list" where
  "captured_output P captured squash_updates =
     (if squash_updates then api_squash_updates P captured
      else map (\<lambda>(key, values, time, diff). (key, values @ [VInt time, VInt diff])) captured)"

definition sort_key :: "'x python \<Rightarrow> bool \<Rightarrow> 'x \<times> 'x value list \<Rightarrow> 'x key_item list" where
  "sort_key P squash_updates = (if squash_updates then squashed_key P else update_key P)"

definition sorted_output ::
    "'x python \<Rightarrow> 'x captured_row list \<Rightarrow> bool \<Rightarrow> py_error + ('x \<times> 'x value list) list" where
  "sorted_output P captured squash_updates =
     py_sorted (tuple_lt P) (sort_key P squash_updates) (captured_output P captured squash_updates)"

text \<open>The text that \<open>_format\<close> gives for \<open>None\<close>, as the function chooses it.\<close>

definition none_text :: "bool \<Rightarrow> string list \<Rightarrow> string" where
  "none_text include_id columns = (if include_id \<or> length columns > 1 then '''' else ''None'')"

definition header_row :: "bool \<Rightarrow> string list \<Rightarrow> string list" where
  "header_row include_id columns =
     (if include_id then (if columns \<noteq> [] then '''' else ''id'') # columns else columns)"

definition format_row ::
    "'x python \<Rightarrow> string \<Rightarrow> bool \<Rightarrow> bool \<Rightarrow> 'x \<times> 'x value list \<Rightarrow> string list" where
  "format_row P none include_id short_pointers row =
     (if include_id then [format_value P none short_pointers (VPointer (fst row))] else [])
     @ map (format_value P none short_pointers) (snd row)"

definition print_table ::
    "'x python \<Rightarrow> string \<Rightarrow> bool \<Rightarrow> bool \<Rightarrow> string list \<Rightarrow> ('x \<times> 'x value list) list
      \<Rightarrow> int option \<Rightarrow> py_error + string list" where
  "print_table P none include_id short_pointers columns rows n_rows =
     (case islice rows n_rows of
        Inl e \<Rightarrow> Inl e
      | Inr truncated \<Rightarrow>
          print_rows (header_row include_id columns
                      # map (format_row P none include_id short_pointers) truncated))"

text \<open>The exceptions that \<open>except ValueError\<close> catches.\<close>

fun is_ValueError :: "py_error \<Rightarrow> bool" where
  "is_ValueError (ValueError msg) = True"
| "is_ValueError KeyError = False"
| "is_ValueError IndexError = False"
| "is_ValueError TypeError = False"

text \<open>
  The text for \<open>None\<close> in the words of the specification: the literal \<open>None\<close> when the table
  printed has a single column and the identifiers are hidden, and the empty string
  otherwise. The columns are those printed, the two pseudo-columns of the update stream
  among them.
\<close>

definition spec_none_text :: "string list \<Rightarrow> bool \<Rightarrow> string" where
  "spec_none_text columns include_id =
     (if length columns = 1 \<and> \<not> include_id then ''None'' else '''')"

section \<open>The stream generator: what the builder leaves in the registry\<close>

lemma extend_all_compose:
  "extend_all pid W f (extend_all pid W g reg) = extend_all pid W (\<lambda>w. g w @ f w) reg"
  by (auto simp: extend_all_def fun_eq_iff map_option_case split: option.splits)

lemma extend_all_nil: "extend_all pid W (\<lambda>w. []) reg = reg"
  by (auto simp: extend_all_def fun_eq_iff map_option_case split: option.splits)

lemma extend_all_cong:
  "(\<And>w. w \<in> W \<Longrightarrow> f w = g w) \<Longrightarrow> extend_all pid W f reg = extend_all pid W g reg"
  by (auto simp: extend_all_def fun_eq_iff)

lemma extend_all_nil': "(\<And>w. w \<in> W \<Longrightarrow> f w = []) \<Longrightarrow> extend_all pid W f reg = reg"
  by (auto simp: extend_all_def fun_eq_iff map_option_case split: option.splits)

lemma extend_all_dom: "extend_all pid W f reg k = None \<longleftrightarrow> reg k = None"
  by (cases k) (auto simp: extend_all_def)

lemma extend_events_extend_all:
  "reg (pid, w) \<noteq> None \<Longrightarrow> w \<in> W \<Longrightarrow>
   extend_events (pid, w) evs reg = Inr (extend_all pid W (\<lambda>w'. if w' = w then evs else []) reg)"
  by (auto simp: extend_events_def extend_all_def fun_eq_iff map_option_case split: option.splits)

lemma advance_extend_all:
  "distinct ws \<Longrightarrow> \<forall>w\<in>set ws. reg (pid, w) \<noteq> None \<Longrightarrow> set ws \<subseteq> W \<Longrightarrow>
   advance_time_for_all_workers pid ws t reg =
     (None, extend_all pid W (\<lambda>w. if w \<in> set ws then [AdvanceTime t] else []) reg)"
proof (induction ws arbitrary: reg)
  case Nil
  then show ?case by (simp add: extend_all_nil)
next
  case (Cons w ws)
  let ?reg' = "extend_all pid W (\<lambda>w'. if w' = w then [AdvanceTime t] else []) reg"
  have e: "extend_events (pid, w) [AdvanceTime t] reg = Inr ?reg'"
    using Cons.prems by (intro extend_events_extend_all) auto
  have "\<forall>w\<in>set ws. ?reg' (pid, w) \<noteq> None"
    using Cons.prems by (simp add: extend_all_dom)
  then have "advance_time_for_all_workers pid ws t ?reg' =
     (None, extend_all pid W (\<lambda>w. if w \<in> set ws then [AdvanceTime t] else []) ?reg')"
    using Cons.prems by (intro Cons.IH) auto
  moreover have "extend_all pid W (\<lambda>w. if w \<in> set ws then [AdvanceTime t] else []) ?reg'
      = extend_all pid W (\<lambda>w'. if w' \<in> set (w # ws) then [AdvanceTime t] else []) reg"
    unfolding extend_all_compose using Cons.prems by (intro extend_all_cong) auto
  ultimately show ?case by (simp add: e)
qed

lemma add_changes_extend_all:
  "reg (pid, w) \<noteq> None \<Longrightarrow> w \<in> W \<Longrightarrow>
   add_changes pid w cs reg =
     (if list_all valid_change cs then None else Some (ValueError unsupported_diff_msg),
      extend_all pid W (\<lambda>w'. if w' = w then concat (map change_events (takeWhile valid_change cs)) else []) reg)"
proof (induction cs arbitrary: reg)
  case Nil
  then show ?case by (simp add: extend_all_nil')
next
  case (Cons c cs)
  obtain d k v where c: "c = (d, k, v)" by (cases c)
  show ?case
  proof (cases "valid_change c")
    case False
    then show ?thesis by (simp add: c valid_change_def extend_all_nil')
  next
    case True
    let ?reg' = "extend_all pid W (\<lambda>w'. if w' = w then change_events c else []) reg"
    have nn: "?reg' (pid, w) \<noteq> None" using Cons.prems by (simp add: extend_all_dom)
    have ih: "add_changes pid w cs ?reg' =
     (if list_all valid_change cs then None else Some (ValueError unsupported_diff_msg),
      extend_all pid W (\<lambda>w'. if w' = w then concat (map change_events (takeWhile valid_change cs)) else []) ?reg')"
      using nn Cons.prems(2) by (rule Cons.IH)
    have comp: "extend_all pid W (\<lambda>w'. if w' = w then concat (map change_events (takeWhile valid_change cs)) else []) ?reg'
       = extend_all pid W (\<lambda>w'. if w' = w then concat (map change_events (takeWhile valid_change (c # cs))) else []) reg"
      unfolding extend_all_compose using True by (intro extend_all_cong) auto
    from True have "d = 1 \<or> d = - 1" by (simp add: c valid_change_def)
    then show ?thesis
    proof
      assume d: "d = 1"
      have "replicate (nat d) (Insert k v) = change_events c" by (simp add: c d)
      then have "extend_events (pid, w) (replicate (nat d) (Insert k v)) reg = Inr ?reg'"
        using Cons.prems extend_events_extend_all[where W=W and evs="change_events c"] by simp
      then show ?thesis using True ih comp by (simp add: c d)
    next
      assume d: "d = - 1"
      have "replicate (nat (- d)) (Delete k v) = change_events c" by (simp add: c d)
      then have "extend_events (pid, w) (replicate (nat (- d)) (Delete k v)) reg = Inr ?reg'"
        using Cons.prems extend_events_extend_all[where W=W and evs="change_events c"] by simp
      then show ?thesis using True ih comp by (simp add: c d)
    qed
  qed
qed

lemma takeWhile_append_if:
  "takeWhile P (xs @ ys) = (if list_all P xs then xs @ takeWhile P ys else takeWhile P xs)"
  by (induction xs) auto

lemma takeWhile_all: "list_all P xs \<Longrightarrow> takeWhile P xs = xs"
  by (induction xs) auto

lemma events_of_append [simp]: "events_of w (xs @ ys) = events_of w xs @ events_of w ys"
  by (simp add: events_of_def)

lemma events_of_Nil [simp]: "events_of w [] = []"
  by (simp add: events_of_def)

lemma list_all_Row [simp]: "list_all valid_action (map (Row w) cs) = list_all valid_change cs"
  by (induction cs) auto

lemma takeWhile_Row: "takeWhile valid_action (map (Row w) cs) = map (Row w) (takeWhile valid_change cs)"
  by (induction cs) auto

lemma events_of_Row:
  "events_of w' (map (Row w) cs) = (if w' = w then concat (map change_events cs) else [])"
  by (induction cs) (auto simp: events_of_def)

lemma add_batch_extend_all:
  "\<forall>w\<in>fst ` set batch. reg (pid, w) \<noteq> None \<and> w \<in> W \<Longrightarrow>
   add_batch pid batch reg =
     (if list_all valid_action (batch_actions batch) then None
      else Some (ValueError unsupported_diff_msg),
      extend_all pid W (\<lambda>w. events_of w (takeWhile valid_action (batch_actions batch))) reg)"
proof (induction batch arbitrary: reg)
  case Nil
  then show ?case by (simp add: batch_actions_def extend_all_nil')
next
  case (Cons wc batch)
  obtain w cs where wc: "wc = (w, cs)" by (cases wc)
  let ?f = "\<lambda>w'. if w' = w then concat (map change_events (takeWhile valid_change cs)) else []"
  let ?reg' = "extend_all pid W ?f reg"
  have ba: "batch_actions ((w, cs) # batch) = map (Row w) cs @ batch_actions batch"
    by (simp add: batch_actions_def)
  have f: "?f = (\<lambda>w'. events_of w' (takeWhile valid_action (map (Row w) cs)))"
    by (simp add: fun_eq_iff takeWhile_Row events_of_Row)
  have ac: "add_changes pid w cs reg =
     (if list_all valid_change cs then None else Some (ValueError unsupported_diff_msg), ?reg')"
    using Cons.prems by (intro add_changes_extend_all) (auto simp: wc)
  show ?case
  proof (cases "list_all valid_change cs")
    case False
    then show ?thesis
      by (simp add: wc ac ba takeWhile_append_if f)
  next
    case True
    have "\<forall>w\<in>fst ` set batch. ?reg' (pid, w) \<noteq> None \<and> w \<in> W"
      using Cons.prems by (simp add: extend_all_dom)
    then have "add_batch pid batch ?reg' =
     (if list_all valid_action (batch_actions batch) then None
      else Some (ValueError unsupported_diff_msg),
      extend_all pid W (\<lambda>w. events_of w (takeWhile valid_action (batch_actions batch))) ?reg')"
      by (rule Cons.IH)
    then show ?thesis using True
      by (simp add: wc ac ba takeWhile_append_if f extend_all_compose takeWhile_all)
  qed
qed

lemma add_timestamps_extend_all:
  assumes "distinct ws" and "W = set ws"
  shows "\<forall>w\<in>W. reg (pid, w) \<noteq> None \<Longrightarrow>
   \<forall>t\<in>set ts. \<exists>b. map_of batches t = Some b \<and> fst ` set b \<subseteq> W \<Longrightarrow>
   add_timestamps pid ws batches ts reg =
     (if list_all valid_action (schedule batches ts) then None
      else Some (ValueError unsupported_diff_msg),
      extend_all pid W (\<lambda>w. events_of w (takeWhile valid_action (schedule batches ts))) reg)"
proof (induction ts arbitrary: reg)
  case Nil
  then show ?case by (simp add: schedule_def extend_all_nil')
next
  case (Cons t ts)
  obtain b where b: "map_of batches t = Some b" "fst ` set b \<subseteq> W"
    using Cons.prems(2) by auto
  let ?reg1 = "extend_all pid W (\<lambda>w. [AdvanceTime t]) reg"
  let ?fb = "\<lambda>w. events_of w (takeWhile valid_action (batch_actions b))"
  let ?reg2 = "extend_all pid W ?fb ?reg1"
  have sch: "schedule batches (t # ts) = Barrier t # batch_actions b @ schedule batches ts"
    by (simp add: schedule_def batch_at_def b)
  have "advance_time_for_all_workers pid ws t reg =
     (None, extend_all pid W (\<lambda>w. if w \<in> set ws then [AdvanceTime t] else []) reg)"
    using assms Cons.prems(1) by (intro advance_extend_all) auto
  also have "extend_all pid W (\<lambda>w. if w \<in> set ws then [AdvanceTime t] else []) reg = ?reg1"
    using assms by (intro extend_all_cong) auto
  finally have adv: "advance_time_for_all_workers pid ws t reg = (None, ?reg1)" .
  have dom1: "\<forall>w\<in>W. ?reg1 (pid, w) \<noteq> None"
    using Cons.prems(1) by (simp add: extend_all_dom)
  have ab: "add_batch pid b ?reg1 =
     (if list_all valid_action (batch_actions b) then None
      else Some (ValueError unsupported_diff_msg), ?reg2)"
    using dom1 b(2) by (intro add_batch_extend_all) auto
  show ?case
  proof (cases "list_all valid_action (batch_actions b)")
    case False
    then show ?thesis
      by (simp add: adv b ab sch takeWhile_append_if extend_all_compose events_of_def)
  next
    case True
    have "\<forall>w\<in>W. ?reg2 (pid, w) \<noteq> None"
      using dom1 by (simp add: extend_all_dom)
    moreover have "\<forall>t\<in>set ts. \<exists>b. map_of batches t = Some b \<and> fst ` set b \<subseteq> W"
      using Cons.prems(2) by simp
    ultimately have "add_timestamps pid ws batches ts ?reg2 =
     (if list_all valid_action (schedule batches ts) then None
      else Some (ValueError unsupported_diff_msg),
      extend_all pid W (\<lambda>w. events_of w (takeWhile valid_action (schedule batches ts))) ?reg2)"
      by (rule Cons.IH)
    then show ?thesis using True
      by (simp add: adv b ab sch takeWhile_append_if extend_all_compose events_of_def takeWhile_all)
  qed
qed

lemma any_truthy_negative:
  "any_truthy (filter (\<lambda>t. t < 0) (remdups (map fst batches))) = has_negative batches"
  by (auto simp: any_truthy_def has_negative_def list_ex_iff)

lemma any_truthy_zero: "any_truthy (filter (\<lambda>t. t = 0) ts) = False"
  by (auto simp: any_truthy_def list_ex_iff)

lemma any_truthy_odd:
  "any_truthy (filter (\<lambda>t. t mod 2 = 1) (remdups (map fst batches))) = has_odd batches"
  by (auto simp: any_truthy_def has_odd_def list_ex_iff)

lemma fold_init_registry:
  "fold (\<lambda>worker reg. reg((pid, worker) \<mapsto> [])) ws reg =
     (\<lambda>(p, w). if p = pid \<and> w \<in> set ws then Some [] else reg (p, w))"
  by (induction ws arbitrary: reg) (auto simp: fun_eq_iff)

lemma workers_of_double [simp]: "workers_of (double_timestamps batches) = workers_of batches"
  by (simp add: workers_of_def double_timestamps_def comp_def case_prod_unfold)

lemma workers_of_normalised [simp]: "workers_of (normalised batches) = workers_of batches"
  by (simp add: normalised_def)

lemma map_of_workers:
  "map_of batches t = Some b \<Longrightarrow> fst ` set b \<subseteq> set (workers_of batches)"
  by (auto simp: workers_of_def dest!: map_of_SomeD intro!: bexI[where x="(t, b)"])

lemma map_of_sort_keys:
  "\<forall>t\<in>set (sort (map fst batches)). \<exists>b. map_of batches t = Some b \<and> fst ` set b \<subseteq> set (workers_of batches)"
proof
  fix t assume "t \<in> set (sort (map fst batches))"
  then have "t \<in> fst ` set batches" by simp
  then obtain b where "map_of batches t = Some b"
    by (metis domD dom_map_of_conv_image_fst)
  then show "\<exists>b. map_of batches t = Some b \<and> fst ` set b \<subseteq> set (workers_of batches)"
    using map_of_workers by blast
qed

lemma table_from_dict_negative:
  assumes "has_negative batches"
  shows "table_from_dict batches schema st =
    (Inl (ValueError negative_timestamp_msg),
     st\<lparr>persistent_id := Suc (persistent_id st),
        events := (\<lambda>(p, w). if p = stream_name (persistent_id st) \<and> w \<in> set (workers_of batches) then Some []
                            else events st (p, w))\<rparr>)"
  using assms
  by (simp add: table_from_dict_def get_next_persistent_id_def any_truthy_negative
      fold_init_registry cong: if_cong)

lemma table_from_dict_general:
  assumes "\<not> has_negative batches"
  shows "table_from_dict batches schema st =
    (if list_all valid_action (full_schedule batches) then Inr (stream_name (persistent_id st), schema)
     else Inl (ValueError unsupported_diff_msg),
     st\<lparr>persistent_id := Suc (persistent_id st),
        events := (\<lambda>(p, w). if p = stream_name (persistent_id st) \<and> w \<in> set (workers_of batches)
                            then Some (events_of w (takeWhile valid_action (full_schedule batches)))
                            else events st (p, w)),
        warnings := warnings st @ (if has_odd batches then [doubled_msg] else [])\<rparr>)"
proof -
  let ?pid = "stream_name (persistent_id st)"
  let ?ws = "workers_of batches"
  let ?reg1 = "\<lambda>(p, w). if p = ?pid \<and> w \<in> set ?ws then Some [] else events st (p, w)"
  let ?bs = "normalised batches"
  have dom: "\<forall>w\<in>set ?ws. ?reg1 (?pid, w) \<noteq> None" by simp
  have keys: "\<forall>t\<in>set (sort (map fst ?bs)). \<exists>b. map_of ?bs t = Some b \<and> fst ` set b \<subseteq> set ?ws"
    using map_of_sort_keys[of ?bs] by simp
  have run: "add_timestamps ?pid ?ws ?bs (sort (map fst ?bs)) ?reg1 =
     (if list_all valid_action (full_schedule batches) then None
      else Some (ValueError unsupported_diff_msg),
      extend_all ?pid (set ?ws) (\<lambda>w. events_of w (takeWhile valid_action (full_schedule batches))) ?reg1)"
    unfolding full_schedule_def
    by (rule add_timestamps_extend_all[OF _ refl dom keys]) (simp add: workers_of_def)
  have reg: "extend_all ?pid (set ?ws) (\<lambda>w. events_of w (takeWhile valid_action (full_schedule batches))) ?reg1
      = (\<lambda>(p, w). if p = ?pid \<and> w \<in> set ?ws
                            then Some (events_of w (takeWhile valid_action (full_schedule batches)))
                            else events st (p, w))"
    by (auto simp: extend_all_def fun_eq_iff)
  show ?thesis
    using assms
    by (simp add: table_from_dict_def get_next_persistent_id_def any_truthy_negative any_truthy_zero
        any_truthy_odd fold_init_registry normalised_def[symmetric]
        warn_def run[unfolded reg] Let_def cong: if_cong)
qed

lemma events_of_batch_actions_absent:
  "w \<notin> fst ` set b \<Longrightarrow> events_of w (batch_actions b) = []"
  by (induction b) (auto simp: batch_actions_def events_of_Row)

lemma events_of_batch_actions:
  "distinct (map fst b) \<Longrightarrow>
   events_of w (batch_actions b) =
     concat (map change_events (case map_of b w of None \<Rightarrow> [] | Some cs \<Rightarrow> cs))"
proof (induction b)
  case Nil
  then show ?case by (simp add: batch_actions_def)
next
  case (Cons wc b)
  obtain w' cs where wc: "wc = (w', cs)" by (cases wc)
  have ba: "batch_actions ((x, cs) # b) = map (Row x) cs @ batch_actions b" for x
    by (simp add: batch_actions_def)
  show ?case
  proof (cases "w' = w")
    case True
    then have "w \<notin> fst ` set b" using Cons.prems by (simp add: wc)
    then have "events_of w (batch_actions b) = []" by (rule events_of_batch_actions_absent)
    then show ?thesis using True
      by (simp add: wc ba events_of_Row)
  next
    case False
    then show ?thesis using Cons by (simp add: wc ba events_of_Row)
  qed
qed

lemma events_of_schedule:
  "events_of w (schedule batches ts) =
     concat (map (\<lambda>t. AdvanceTime t # events_of w (batch_actions (batch_at batches t))) ts)"
  by (induction ts) (simp_all add: schedule_def events_of_def)

lemma wf_batch_at: "wf_batches batches \<Longrightarrow> distinct (map fst (batch_at batches t))"
  by (auto simp: wf_batches_def batch_at_def list_all_iff split: option.splits dest!: map_of_SomeD)

lemma events_of_schedule_rows:
  assumes "wf_batches batches"
  shows "events_of w (schedule batches (sort (map fst batches))) = worker_sequence batches w"
proof -
  have "events_of w (batch_actions (batch_at batches t)) = concat (map change_events (rows_at batches t w))" for t
    using events_of_batch_actions[OF wf_batch_at[OF assms], of w t]
    by (simp add: rows_at_def batch_at_def split: option.splits)
  then show ?thesis by (simp add: events_of_schedule worker_sequence_def)
qed

lemma valid_batch_actions:
  "list_all (\<lambda>(w, changes). list_all valid_change changes) b \<Longrightarrow> list_all valid_action (batch_actions b)"
  by (induction b) (auto simp: batch_actions_def)

lemma valid_batch_at: "valid_batches batches \<Longrightarrow> list_all valid_action (batch_actions (batch_at batches t))"
proof (cases "map_of batches t")
  case None
  then show ?thesis by (simp add: batch_at_def batch_actions_def)
next
  case (Some b)
  assume "valid_batches batches"
  moreover have "(t, b) \<in> set batches" using Some by (rule map_of_SomeD)
  ultimately have "list_all (\<lambda>(w, changes). list_all valid_change changes) b"
    unfolding valid_batches_def list_all_iff by fast
  then show ?thesis using Some by (simp add: batch_at_def valid_batch_actions)
qed

lemma valid_schedule: "valid_batches batches \<Longrightarrow> list_all valid_action (schedule batches ts)"
  by (induction ts) (simp_all add: schedule_def valid_batch_at)

lemma wf_double: "wf_batches batches \<Longrightarrow> wf_batches (double_timestamps batches)"
  by (auto simp: wf_batches_def double_timestamps_def list_all_iff distinct_map comp_def case_prod_unfold inj_on_def)

lemma valid_double: "valid_batches (double_timestamps batches) = valid_batches batches"
  by (induction batches) (auto simp: valid_batches_def double_timestamps_def)

lemma wf_normalised: "wf_batches batches \<Longrightarrow> wf_batches (normalised batches)"
  by (simp add: normalised_def wf_double)

lemma valid_normalised: "valid_batches (normalised batches) = valid_batches batches"
  by (simp add: normalised_def valid_double)

lemma barrier_times_append [simp]: "barrier_times (xs @ ys) = barrier_times xs @ barrier_times ys"
  by (induction xs rule: barrier_times.induct) auto

lemma barrier_times_change_events [simp]: "barrier_times (concat (map change_events cs)) = []"
  by (induction cs) auto

lemma barrier_times_worker_sequence:
  "barrier_times (worker_sequence batches w) = sort (map fst batches)"
proof -
  have "barrier_times (concat (map (\<lambda>t. AdvanceTime t # concat (map change_events (rows_at batches t w))) ts)) = ts" for ts
    by (induction ts) auto
  then show ?thesis by (simp add: worker_sequence_def)
qed

lemma stream_name_0: "stream_name 0 = ''_stream_generator_0''"
  by (simp add: stream_name_def str_nat.simps digit_char_def)

text \<open>
  Claim C5. When some timestamp of the batch set is negative, \<open>_table_from_dict\<close> raises
  \<open>ValueError\<close> before any event is appended: the registry differs from the one before
  the call only in the empty lists created for the workers of the new stream, and no
  warning is emitted.
\<close>

theorem negative_timestamp_raises_before_any_event:
  assumes "has_negative batches"
  shows "table_from_dict batches schema st =
    (Inl (ValueError negative_timestamp_msg),
     st\<lparr>persistent_id := Suc (persistent_id st),
        events := (\<lambda>(p, w). if p = stream_name (persistent_id st) \<and> w \<in> set (workers_of batches)
                            then Some [] else events st (p, w))\<rparr>)"
  using assms by (rule table_from_dict_negative)

theorem negative_timestamp_raises_before_any_event_witness:
  "has_negative [(- 2, [(0, [(1, 7 :: nat, [10 :: int])])]), (4, [(1, [(1, 8, [20])])])]
   \<and> fst (table_from_dict [(- 2, [(0, [(1, 7 :: nat, [10 :: int])])]), (4, [(1, [(1, 8, [20])])])]
          () initial_generator) = Inl (ValueError negative_timestamp_msg)
   \<and> events (snd (table_from_dict [(- 2, [(0, [(1, 7 :: nat, [10 :: int])])]), (4, [(1, [(1, 8, [20])])])]
          () initial_generator)) (''_stream_generator_0'', 0) = Some []
   \<and> events (snd (table_from_dict [(- 2, [(0, [(1, 7 :: nat, [10 :: int])])]), (4, [(1, [(1, 8, [20])])])]
          () initial_generator)) (''_stream_generator_0'', 1) = Some []
   \<and> warnings (snd (table_from_dict [(- 2, [(0, [(1, 7 :: nat, [10 :: int])])]), (4, [(1, [(1, 8, [20])])])]
          () initial_generator)) = []"
proof -
  have h: "has_negative [(- 2, [(0, [(1, 7 :: nat, [10 :: int])])]), (4, [(1, [(1, 8, [20])])])]"
    by (simp add: has_negative_def)
  show ?thesis
    using h negative_timestamp_raises_before_any_event [OF h, of "()" initial_generator]
    by (simp add: initial_generator_def workers_of_def stream_name_0)
qed

text \<open>
  Claim C4, evaluated on the batch set \<open>{0: {0: [(1, 7, [10])]}}\<close>: construction succeeds
  and the log of warnings stays empty. The test
  \<open>any(timestamp for timestamp in timestamps if timestamp == 0)\<close> asks for the truth value
  of the timestamps that are 0, which is false, so the backfill warning is never emitted.
\<close>

theorem timestamp_zero_emits_no_warning:
  "fst (table_from_dict [(0, [(0, [(1, 7 :: nat, [10 :: int])])])] () initial_generator)
     = Inr (''_stream_generator_0'', ())
   \<and> events (snd (table_from_dict [(0, [(0, [(1, 7 :: nat, [10 :: int])])])] () initial_generator))
       (''_stream_generator_0'', 0) = Some [AdvanceTime 0, Insert 7 [10]]
   \<and> warnings (snd (table_from_dict [(0, [(0, [(1, 7 :: nat, [10 :: int])])])] () initial_generator))
     = []"
  using table_from_dict_general [of "[(0, [(0, [(1, 7 :: nat, [10 :: int])])])]" "()" initial_generator]
  by (simp add: has_negative_def has_odd_def full_schedule_def normalised_def schedule_def
      batch_at_def batch_actions_def valid_change_def events_of_def workers_of_def
      initial_generator_def stream_name_0)

text \<open>
  Claim C1. For a batch set (a well-formed dictionary of dictionaries) with no negative
  timestamp and only diffs 1 and -1, \<open>_table_from_dict\<close> returns the table of the new
  stream, and every worker that occurs anywhere in the batch set holds exactly
  \<open>worker_sequence\<close>: for each timestamp in ascending order the barrier
  \<open>AdvanceTime t\<close>, also when the worker has no row at \<open>t\<close>, followed by the worker's
  \<open>Insert\<close> and \<open>Delete\<close> events of \<open>t\<close> in row order. The barrier times of the sequence
  are the timestamps in strictly ascending order.
\<close>

theorem table_from_dict_builds_worker_sequences:
  assumes "wf_batches batches" and "\<not> has_negative batches" and "valid_batches batches"
  shows "fst (table_from_dict batches schema st) = Inr (stream_name (persistent_id st), schema)
    \<and> (\<forall>w \<in> set (workers_of batches).
          events (snd (table_from_dict batches schema st)) (stream_name (persistent_id st), w)
            = Some (worker_sequence (normalised batches) w)
        \<and> barrier_times (worker_sequence (normalised batches) w)
            = sort (map fst (normalised batches))
        \<and> sorted (barrier_times (worker_sequence (normalised batches) w))
        \<and> distinct (barrier_times (worker_sequence (normalised batches) w)))"
proof -
  have v: "list_all valid_action (full_schedule batches)"
    using assms(3) by (simp add: full_schedule_def valid_schedule valid_normalised)
  have "distinct (map fst (normalised batches))"
    using wf_normalised[OF assms(1)] by (simp add: wf_batches_def)
  then show ?thesis
    using v table_from_dict_general[OF assms(2), of schema st]
    by (simp add: takeWhile_all barrier_times_worker_sequence
        events_of_schedule_rows[OF wf_normalised[OF assms(1)], folded full_schedule_def])
qed

theorem table_from_dict_builds_worker_sequences_witness:
  "wf_batches [(4, [(0, [(- 1, 7 :: nat, [10 :: int]), (1, 7, [20])])]),
               (2, [(0, [(1, 7, [10])]), (1, [(1, 8, [5])])])]
   \<and> \<not> has_negative [(4, [(0, [(- 1, 7 :: nat, [10 :: int]), (1, 7, [20])])]),
               (2, [(0, [(1, 7, [10])]), (1, [(1, 8, [5])])])]
   \<and> valid_batches [(4, [(0, [(- 1, 7 :: nat, [10 :: int]), (1, 7, [20])])]),
               (2, [(0, [(1, 7, [10])]), (1, [(1, 8, [5])])])]
   \<and> fst (table_from_dict [(4, [(0, [(- 1, 7 :: nat, [10 :: int]), (1, 7, [20])])]),
               (2, [(0, [(1, 7, [10])]), (1, [(1, 8, [5])])])] () initial_generator)
       = Inr (''_stream_generator_0'', ())
   \<and> events (snd (table_from_dict [(4, [(0, [(- 1, 7 :: nat, [10 :: int]), (1, 7, [20])])]),
               (2, [(0, [(1, 7, [10])]), (1, [(1, 8, [5])])])] () initial_generator))
         (''_stream_generator_0'', 0)
       = Some [AdvanceTime 2, Insert 7 [10], AdvanceTime 4, Delete 7 [10], Insert 7 [20]]
   \<and> events (snd (table_from_dict [(4, [(0, [(- 1, 7 :: nat, [10 :: int]), (1, 7, [20])])]),
               (2, [(0, [(1, 7, [10])]), (1, [(1, 8, [5])])])] () initial_generator))
         (''_stream_generator_0'', 1)
       = Some [AdvanceTime 2, Insert 8 [5], AdvanceTime 4]"
proof -
  let ?b = "[(4, [(0, [(- 1, 7 :: nat, [10 :: int]), (1, 7, [20])])]),
             (2, [(0, [(1, 7, [10])]), (1, [(1, 8, [5])])])]"
  have h1: "wf_batches ?b" by (simp add: wf_batches_def)
  have h2: "\<not> has_negative ?b" by (simp add: has_negative_def)
  have h3: "valid_batches ?b" by (simp add: valid_batches_def valid_change_def)
  have n: "normalised ?b = ?b" by (simp add: normalised_def has_odd_def)
  show ?thesis
    using h1 h2 h3 table_from_dict_builds_worker_sequences [OF h1 h2 h3, of "()" initial_generator]
    by (simp add: n workers_of_def worker_sequence_def rows_at_def initial_generator_def
        stream_name_0)
qed

section \<open>The stream generator: doubling and rejected diffs\<close>



lemma schedule_covers:
  assumes "distinct (map fst batches)" and "set (map fst batches) \<subseteq> set ts"
    and "list_all valid_action (schedule batches ts)"
  shows "valid_batches batches"
proof -
  have "list_all (\<lambda>(w, changes). list_all valid_change changes) b" if tb: "(t, b) \<in> set batches" for t b
  proof -
    have m: "map_of batches t = Some b" using assms(1) tb by simp
    have "t \<in> set ts" using assms(2) tb by force
    then have "list_all valid_action (batch_actions b)"
      using assms(3) m by (auto simp: schedule_def list_all_iff batch_at_def)
    then show ?thesis
      by (induction b) (auto simp: batch_actions_def)
  qed
  then show ?thesis unfolding valid_batches_def list_all_iff by fast
qed

lemma invalid_full_schedule:
  assumes "wf_batches batches" and "\<not> valid_batches batches"
  shows "\<not> list_all valid_action (full_schedule batches)"
proof
  assume a: "list_all valid_action (full_schedule batches)"
  have "distinct (map fst (normalised batches))"
    using wf_normalised[OF assms(1)] by (simp add: wf_batches_def)
  then have "valid_batches (normalised batches)"
    using a by (intro schedule_covers[where ts="sort (map fst (normalised batches))"]) (simp_all add: full_schedule_def)
  then show False using assms(2) by (simp add: valid_normalised)
qed

lemma full_schedule_starts_with_barrier:
  assumes "batches \<noteq> []"
  shows "\<exists>rest. takeWhile valid_action (full_schedule batches)
     = Barrier (hd (sort (map fst (normalised batches)))) # rest"
proof -
  have "normalised batches \<noteq> []" using assms by (simp add: normalised_def double_timestamps_def)
  then have "sort (map fst (normalised batches)) \<noteq> []"
    by (metis length_0_conv length_map length_sort)
  then obtain t ts where "sort (map fst (normalised batches)) = t # ts"
    by (cases "sort (map fst (normalised batches))") auto
  then show ?thesis by (simp add: full_schedule_def schedule_def)
qed

section \<open>Data frames and static tables: validation, cache and mutation\<close>

lemma time_neq_diff: "TIME_PSEUDOCOLUMN \<noteq> DIFF_PSEUDOCOLUMN"
  by (simp add: TIME_PSEUDOCOLUMN_def DIFF_PSEUDOCOLUMN_def)

lemma map_of_update_other:
  "k \<noteq> k' \<Longrightarrow> map_of (AList.update k v al) k' = map_of al k'"
  by (simp add: AList.update_conv')

lemma wrap_fits: "fits d x \<Longrightarrow> wrap d x = x"
  by (cases d) (simp_all add: wrap_def fits_def)

lemma map_wrap_fits:
  "list_all (\<lambda>t. fits d (2 * t)) ts \<Longrightarrow> map (\<lambda>t. wrap d (2 * t)) ts = map (\<lambda>t. 2 * t) ts"
  by (induction ts) (simp_all add: wrap_fits)

lemma even_wrap_double: "even (wrap d (2 * t))"
proof -
  have m: "even ((2 * x) mod 2 ^ Suc n)" for x :: int and n
    by (simp add: dvd_mod_iff)
  have s: "even ((2 * t + 2 ^ Suc n) mod 2 ^ Suc (Suc n) - 2 ^ Suc n)" for n
  proof -
    have "even ((2 * t + 2 ^ Suc n) mod 2 ^ Suc (Suc n))"
      using m[of "t + 2 ^ n" "Suc n"] by (simp add: algebra_simps)
    then show ?thesis by simp
  qed
  have b: "\<exists>n. dtype_bits d = Suc (Suc n)"
    by (cases d) (simp_all add: numeral_eq_Suc)
  then obtain n where n: "dtype_bits d = Suc (Suc n)" by blast
  show ?thesis
    using s[of n] m[of t "Suc n"] by (simp add: wrap_def n)
qed

lemma time_column_map_of:
  "time_column df = Some (d, ts) \<Longrightarrow> map_of (df_columns df) TIME_PSEUDOCOLUMN = Some (IntColumn d ts)"
  by (auto simp: time_column_def split: option.splits column.splits)

lemma diff_column_map_of:
  "diff_column df = Some ds \<Longrightarrow> \<exists>d. map_of (df_columns df) DIFF_PSEUDOCOLUMN = Some (IntColumn d ds)"
  by (auto simp: diff_column_def split: option.splits column.splits)

lemma validate_dataframe_doubles:
  assumes "integer_pseudocolumns extra df"
    and "time_column df = Some (d, ts)"
    and "\<not> list_ex (\<lambda>t. t < 0) ts" and "list_ex (\<lambda>t. t mod 2 = 1) ts"
  shows "snd (validate_dataframe extra df) =
           (set_column TIME_PSEUDOCOLUMN (IntColumn d (map (\<lambda>t. wrap d (2 * t)) ts)) df,
            [doubled_msg])"
proof -
  note t = time_column_map_of[OF assms(2)]
  show ?thesis
    using assms(1,3,4)
    by (simp add: validate_dataframe_def integer_pseudocolumns_def t
        split: option.splits column.splits)
qed

lemma validate_dataframe_negative:
  assumes "integer_pseudocolumns extra df"
    and "time_column df = Some (d, ts)" and "list_ex (\<lambda>t. t < 0) ts"
  shows "validate_dataframe extra df = (Some (ValueError negative_times_msg), df, [])"
proof -
  note t = time_column_map_of[OF assms(2)]
  show ?thesis
    using assms(1,3)
    by (simp add: validate_dataframe_def integer_pseudocolumns_def t)
qed

lemma validate_dataframe_diff_raises:
  assumes "diff_column df = Some ds" and "list_ex (\<lambda>d. d \<noteq> 1 \<and> d \<noteq> - 1) ds"
  shows "\<exists>msg. fst (validate_dataframe extra df) = Some (ValueError msg)"
proof -
  from diff_column_map_of[OF assms(1)]
  obtain dd where d: "map_of (df_columns df) DIFF_PSEUDOCOLUMN = Some (IntColumn dd ds)" by blast
  have d': "map_of (df_columns (set_column TIME_PSEUDOCOLUMN c df)) DIFF_PSEUDOCOLUMN
      = Some (IntColumn dd ds)" for c
    by (simp add: set_column_def map_of_update_other time_neq_diff d)
  show ?thesis
    using assms(2)
    by (auto simp: validate_dataframe_def d d' Let_def split: option.splits column.splits)
qed

lemma table_from_pandas_error_keeps_graph:
  assumes "fst (table_from_pandas env df id_from unsafe schema G) = Inl e"
  shows "fst (snd (table_from_pandas env df id_from unsafe schema G)) = G"
  using assms
  by (auto simp: table_from_pandas_def Let_def table_from_datasource_def
      split: if_splits option.splits sum.splits prod.splits)

lemma table_from_pandas_diff_raises:
  assumes "diff_column df = Some ds" and "list_ex (\<lambda>d. d \<noteq> 1 \<and> d \<noteq> - 1) ds"
  shows "\<exists>msg. fst (table_from_pandas env df id_from flag schema G) = Inl (ValueError msg)"
proof -
  from validate_dataframe_diff_raises[OF assms, of "pseudocolumns_extra env"]
  obtain msg where "fst (validate_dataframe (pseudocolumns_extra env) df) = Some (ValueError msg)" by blast
  then show ?thesis
    by (auto simp: table_from_pandas_def Let_def split: option.splits sum.splits prod.splits)
qed




lemma table_from_pandas_success:
  assumes "table_from_pandas env df id_from flag schema G = (Inr t, G', df', warned)"
  shows "\<exists>recs. identity_records (pseudocolumns_extra env) df id_from = Some recs
           \<and> universes G' = Suc (universes G)
           \<and> tbl_unsafe_trusted_ids t = flag
           \<and> (case static_tables_cache G (key_of_records env flag recs) of
                 Some cached \<Rightarrow> tbl_universe t = tbl_universe cached
                    \<and> static_tables_cache G' = static_tables_cache G
               | None \<Rightarrow> tbl_universe t = universes G
                    \<and> static_tables_cache G' = (static_tables_cache G)(key_of_records env flag recs \<mapsto> t))"
  using assms
  by (auto simp: table_from_pandas_def Let_def table_from_datasource_def identity_records_def
      key_of_records_def cache_key_def with_universe_of_def
      split: if_splits option.splits sum.splits prod.splits)



lemma has_column_map_of: "has_column df name \<longleftrightarrow> map_of (df_columns df) name \<noteq> None"
  by (simp add: has_column_def map_of_eq_None_iff)

lemma add_missing_column_index [simp]: "df_index (add_missing_column name n df) = df_index df"
  by (simp add: add_missing_column_def set_column_def)

lemma add_missing_column_len [simp]: "len_df (add_missing_column name n df) = len_df df"
  by (simp add: len_df_def)

lemma add_missing_column_map_of:
  "map_of (df_columns (add_missing_column name n df)) name' =
     (if name' = name \<and> \<not> has_column df name then Some (IntColumn Int64 (replicate (len_df df) n))
      else map_of (df_columns df) name')"
  by (simp add: add_missing_column_def set_column_def AList.update_conv')

lemma add_missing_column_has:
  "has_column (add_missing_column name n df) name' \<longleftrightarrow> name' = name \<or> has_column df name'"
  by (auto simp: has_column_map_of add_missing_column_map_of)

lemma StreamGenerator_table_from_pandas_df:
  "snd (snd (StreamGenerator_table_from_pandas env df id_from unsafe schema st)) = with_stream_columns df"
  by (simp add: StreamGenerator_table_from_pandas_def with_stream_columns_def Let_def
      split: prod.splits option.splits sum.splits)

lemma table_from_pandas_df:
  "fst (snd (snd (table_from_pandas env df id_from flag None G)))
     = fst (snd (validate_dataframe (pseudocolumns_extra env) df))"
  by (simp add: table_from_pandas_def Let_def table_from_datasource_def
      split: prod.splits option.splits sum.splits)

lemma set_column_neq:
  "map_of (df_columns df) name \<noteq> Some col \<Longrightarrow> set_column name col df \<noteq> df"
  by (metis AList.update_conv' dataframe.select_convs(2) dataframe.surjective dataframe.update_convs(2) fun_upd_same set_column_def)

lemma doubled_differs:
  assumes "list_ex (\<lambda>t. t mod 2 = 1) (ts :: int list)"
  shows "map (\<lambda>t. wrap d (2 * t)) ts \<noteq> ts"
proof
  assume e: "map (\<lambda>t. wrap d (2 * t)) ts = ts"
  from assms obtain t where t: "t \<in> set ts" "t mod 2 = 1" by (auto simp: list_ex_iff)
  from e have "map (\<lambda>t. wrap d (2 * t)) ts = map (\<lambda>t. t) ts" by simp
  then have "\<forall>x\<in>set ts. wrap d (2 * x) = x" by (simp only: map_eq_conv)
  with t have "wrap d (2 * t) = t" by blast
  then have "even t" using even_wrap_double[of d t] by simp
  with t(2) show False by presburger
qed

lemma with_stream_columns_map_of:
  "map_of (df_columns (with_stream_columns df)) name
          = (if has_column df name then map_of (df_columns df) name
             else if name = ''_time'' then Some (IntColumn Int64 (replicate (len_df df) 2))
             else if name = ''_worker'' then Some (IntColumn Int64 (replicate (len_df df) 0))
             else if name = ''_diff'' then Some (IntColumn Int64 (replicate (len_df df) 1))
             else None)"
proof (cases "has_column df name")
  case True
  then show ?thesis
    by (auto simp: with_stream_columns_def add_missing_column_map_of add_missing_column_has)
next
  case False
  then have n: "map_of (df_columns df) name = None" by (simp add: has_column_map_of)
  show ?thesis using False n
    by (auto simp: with_stream_columns_def add_missing_column_map_of add_missing_column_has)
qed

lemma with_stream_columns_has:
  "has_column (with_stream_columns df) ''_time'' \<and> has_column (with_stream_columns df) ''_worker''
   \<and> has_column (with_stream_columns df) ''_diff''"
  by (simp add: with_stream_columns_def add_missing_column_has)

lemma with_stream_columns_index: "df_index (with_stream_columns df) = df_index df"
  by (simp add: with_stream_columns_def)

lemma with_stream_columns_changes:
  assumes "\<not> (has_column df ''_time'' \<and> has_column df ''_worker'' \<and> has_column df ''_diff'')"
  shows "with_stream_columns df \<noteq> df"
proof
  assume "with_stream_columns df = df"
  then have "has_column df ''_time'' \<and> has_column df ''_worker'' \<and> has_column df ''_diff''"
    using with_stream_columns_has[of df] by simp
  with assms show False by simp
qed

lemmas build_defs = table_from_pandas_def validate_dataframe_def PANDAS_PSEUDOCOLUMNS_def
  TIME_PSEUDOCOLUMN_def DIFF_PSEUDOCOLUMN_def non_integer_column_def ids_dataframe_def
  cache_key_def to_records_def len_df_def table_from_datasource_def with_universe_of_def
  set_column_def example_env_def empty_graph_def doubled_msg_def wrap_def Let_def

lemmas stream_eval_defs = has_negative_def has_odd_def wf_batches_def valid_batches_def
  valid_change_def workers_of_def double_timestamps_def normalised_def full_schedule_def
  schedule_def batch_at_def batch_actions_def events_of_def worker_sequence_def rows_at_def
  initial_generator_def

lemma build_two_rows:
  "table_from_pandas example_env df_two_rows None False None empty_graph
     = (Inr table_two_rows, graph_after_two_rows, df_two_rows, [])"
  by (simp add: build_defs df_two_rows_def table_two_rows_def graph_after_two_rows_def)






section \<open>The claims about doubling, rejected diffs, the cache, Parquet and mutation\<close>





text \<open>
  Claim C3, as amended. A well-formed batch set with no negative timestamp and a row
  whose diff is neither 1 nor -1: \<open>_table_from_dict\<close> raises \<open>ValueError\<close>, and each
  worker of the stream keeps what was appended before the offending row, which begins
  with the barrier of the least timestamp. A data frame whose integer diff column holds a
  value other than 1 and -1: the module-level \<open>table_from_pandas\<close> raises \<open>ValueError\<close> and
  leaves the graph, hence the cache, as it was.
\<close>

theorem invalid_diff_raises_and_keeps_events:
  "(wf_batches batches \<and> \<not> has_negative batches \<and> \<not> valid_batches batches \<longrightarrow>
       fst (table_from_dict batches schema st) = Inl (ValueError unsupported_diff_msg)
     \<and> (\<forall>w \<in> set (workers_of batches).
           events (snd (table_from_dict batches schema st)) (stream_name (persistent_id st), w)
             = Some (events_of w (takeWhile valid_action (full_schedule batches)))
         \<and> (\<exists>rest. events_of w (takeWhile valid_action (full_schedule batches))
               = AdvanceTime (hd (sort (map fst (normalised batches)))) # rest)))
   \<and> (diff_column df = Some ds \<and> list_ex (\<lambda>d. d \<noteq> 1 \<and> d \<noteq> - 1) ds \<longrightarrow>
         (\<exists>msg. fst (table_from_pandas env df id_from flag sch G) = Inl (ValueError msg))
       \<and> fst (snd (table_from_pandas env df id_from flag sch G)) = G)"
proof (intro conjI impI)
  assume a: "wf_batches batches \<and> \<not> has_negative batches \<and> \<not> valid_batches batches"
  then have inv: "\<not> list_all valid_action (full_schedule batches)"
    by (simp add: invalid_full_schedule)
  have "batches \<noteq> []" using a by (auto simp: valid_batches_def)
  from full_schedule_starts_with_barrier[OF this]
  obtain rest where r: "takeWhile valid_action (full_schedule batches)
     = Barrier (hd (sort (map fst (normalised batches)))) # rest" by blast
  note g = table_from_dict_general[of batches schema st]
  show "fst (table_from_dict batches schema st) = Inl (ValueError unsupported_diff_msg)"
    using a g inv by simp
  show "\<forall>w \<in> set (workers_of batches).
           events (snd (table_from_dict batches schema st)) (stream_name (persistent_id st), w)
             = Some (events_of w (takeWhile valid_action (full_schedule batches)))
         \<and> (\<exists>rest. events_of w (takeWhile valid_action (full_schedule batches))
               = AdvanceTime (hd (sort (map fst (normalised batches)))) # rest)"
    using a g by (simp add: r events_of_def)
next
  assume d: "diff_column df = Some ds \<and> list_ex (\<lambda>d. d \<noteq> 1 \<and> d \<noteq> - 1) ds"
  then show e: "\<exists>msg. fst (table_from_pandas env df id_from flag sch G) = Inl (ValueError msg)"
    using table_from_pandas_diff_raises[of df ds] by blast
  then show "fst (snd (table_from_pandas env df id_from flag sch G)) = G"
    using table_from_pandas_error_keeps_graph by blast
qed

theorem invalid_diff_raises_and_keeps_events_witness:
  "wf_batches [(2, [(0, [(1, 7 :: nat, [10 :: int]), (2, 8, [20]), (1, 9, [30])])])]
   \<and> \<not> has_negative [(2, [(0, [(1, 7 :: nat, [10 :: int]), (2, 8, [20]), (1, 9, [30])])])]
   \<and> \<not> valid_batches [(2, [(0, [(1, 7 :: nat, [10 :: int]), (2, 8, [20]), (1, 9, [30])])])]
   \<and> fst (table_from_dict [(2, [(0, [(1, 7 :: nat, [10 :: int]), (2, 8, [20]), (1, 9, [30])])])]
        () initial_generator) = Inl (ValueError unsupported_diff_msg)
   \<and> events (snd (table_from_dict [(2, [(0, [(1, 7 :: nat, [10 :: int]), (2, 8, [20]), (1, 9, [30])])])]
        () initial_generator)) (''_stream_generator_0'', 0) = Some [AdvanceTime 2, Insert 7 [10]]
   \<and> diff_column df_diff_2 = Some [1, 2]
   \<and> table_from_pandas example_env df_diff_2 None False None empty_graph
       = (Inl (ValueError diff_values_msg), empty_graph, df_diff_2, [])"
proof -
  let ?b = "[(2, [(0, [(1, 7 :: nat, [10 :: int]), (2, 8, [20]), (1, 9, [30])])])]"
  have h: "wf_batches ?b \<and> \<not> has_negative ?b \<and> \<not> valid_batches ?b"
    by (simp add: stream_eval_defs)
  have d: "diff_column df_diff_2 = Some [1, 2] \<and> list_ex (\<lambda>d. d \<noteq> 1 \<and> d \<noteq> - 1) [1, 2 :: int]"
    by (simp add: diff_column_def df_diff_2_def DIFF_PSEUDOCOLUMN_def)
  have t: "table_from_pandas example_env df_diff_2 None False None empty_graph
       = (Inl (ValueError diff_values_msg), empty_graph, df_diff_2, [])"
    by (simp add: build_defs df_diff_2_def diff_values_msg_def)
  show ?thesis
    using h d t invalid_diff_raises_and_keeps_events
      [of ?b "()" initial_generator df_diff_2 "[1, 2]" example_env None False None empty_graph]
    by (simp add: stream_eval_defs stream_name_0)
qed

text \<open>
  The claim as stated fails on \<open>{2: {0: [(1, 7, [10]), (2, 8, [20])]}}\<close>: the call raises
  at the second row, and the registry holds the barrier and the first row's event.
\<close>

theorem invalid_diff_leaves_events_counterexample:
  "fst (table_from_dict [(2, [(0, [(1, 7 :: nat, [10 :: int]), (2, 8, [20])])])] () initial_generator)
     = Inl (ValueError unsupported_diff_msg)
   \<and> events (snd (table_from_dict [(2, [(0, [(1, 7 :: nat, [10 :: int]), (2, 8, [20])])])] ()
        initial_generator)) (''_stream_generator_0'', 0) = Some [AdvanceTime 2, Insert 7 [10]]"
  using table_from_dict_general
    [of "[(2, [(0, [(1, 7 :: nat, [10 :: int]), (2, 8, [20])])])]" "()" initial_generator]
  by (simp add: stream_eval_defs stream_name_0)






text \<open>
  Claim C9. \<open>table_from_parquet\<close> returns what \<open>table_from_pandas\<close> returns on the data
  frame read, with \<open>id_from=None\<close> and \<open>unsafe_trusted_ids=False\<close>, whatever the caller
  passed for the two: a table it returns has the trust flag off and is cached under the
  key of the records made from the index of the data frame.
\<close>

theorem table_from_parquet_ignores_id_arguments:
  "table_from_parquet env path id_from unsafe_trusted_ids G = table_from_parquet env path None False G
   \<and> table_from_parquet env path id_from unsafe_trusted_ids G
       = (case table_from_pandas env (read_parquet env path) None False None G of
            (result, G1, df1, warned) \<Rightarrow> (result, G1, warned))
   \<and> (\<forall>t. fst (table_from_parquet env path id_from unsafe_trusted_ids G) = Inr t \<longrightarrow>
          tbl_unsafe_trusted_ids t = False
        \<and> (\<exists>recs. identity_records (pseudocolumns_extra env) (read_parquet env path) None = Some recs
              \<and> static_tables_cache (fst (snd (table_from_parquet env path id_from unsafe_trusted_ids G)))
                   (key_of_records env False recs) \<noteq> None))"
proof (intro conjI allI impI)
  show "table_from_parquet env path id_from unsafe_trusted_ids G = table_from_parquet env path None False G"
    by (simp add: table_from_parquet_def)
  show "table_from_parquet env path id_from unsafe_trusted_ids G
       = (case table_from_pandas env (read_parquet env path) None False None G of
            (result, G1, df1, warned) \<Rightarrow> (result, G1, warned))"
    by (simp add: table_from_parquet_def Let_def)
next
  fix t
  assume a: "fst (table_from_parquet env path id_from unsafe_trusted_ids G) = Inr t"
  obtain r G1 df1 w where b: "table_from_pandas env (read_parquet env path) None False None G = (r, G1, df1, w)"
    by (metis prod_cases4)
  then have r: "r = Inr t" and g: "fst (snd (table_from_parquet env path id_from unsafe_trusted_ids G)) = G1"
    using a by (simp_all add: table_from_parquet_def)
  from table_from_pandas_success[OF b[unfolded r]]
  obtain recs where s: "identity_records (pseudocolumns_extra env) (read_parquet env path) None = Some recs"
    "tbl_unsafe_trusted_ids t = False"
    "(case static_tables_cache G (key_of_records env False recs) of
                 Some cached \<Rightarrow> tbl_universe t = tbl_universe cached
                    \<and> static_tables_cache G1 = static_tables_cache G
               | None \<Rightarrow> tbl_universe t = universes G
                    \<and> static_tables_cache G1 = (static_tables_cache G)(key_of_records env False recs \<mapsto> t))"
    by blast
  show "tbl_unsafe_trusted_ids t = False" by (rule s(2))
  have "static_tables_cache G1 (key_of_records env False recs) \<noteq> None"
    using s(3) by (auto split: option.splits)
  then show "\<exists>recs. identity_records (pseudocolumns_extra env) (read_parquet env path) None = Some recs
              \<and> static_tables_cache (fst (snd (table_from_parquet env path id_from unsafe_trusted_ids G)))
                   (key_of_records env False recs) \<noteq> None"
    using s(1) g by auto
qed

theorem table_from_parquet_ignores_id_arguments_witness:
  "table_from_parquet example_env () (Some [''a'']) True empty_graph
     = (Inr \<lparr>tbl_schema = [''a''], tbl_data = df_two_rows, tbl_unsafe_trusted_ids = False,
             tbl_universe = 0\<rparr>,
        \<lparr>static_tables_cache =
            [66004 \<mapsto> \<lparr>tbl_schema = [''a''], tbl_data = df_two_rows,
                          tbl_unsafe_trusted_ids = False, tbl_universe = 0\<rparr>],
          universes = 1\<rparr>, [])
   \<and> table_from_parquet example_env () None False empty_graph
     = table_from_parquet example_env () (Some [''a'']) True empty_graph
   \<and> key_of_records example_env False [[(''id'', IntCell 0)], [(''id'', IntCell 1)]] = 66004"
proof -
  have r: "read_parquet example_env () = df_two_rows"
    by (simp add: example_env_def df_two_rows_def)
  have k: "key_of_records example_env False [[(''id'', IntCell 0)], [(''id'', IntCell 1)]] = 66004"
    by (simp add: key_of_records_def example_env_def)
  have e1: "table_from_parquet example_env () (Some [''a'']) True empty_graph
     = (Inr \<lparr>tbl_schema = [''a''], tbl_data = df_two_rows, tbl_unsafe_trusted_ids = False,
             tbl_universe = 0\<rparr>,
        \<lparr>static_tables_cache =
            [66004 \<mapsto> \<lparr>tbl_schema = [''a''], tbl_data = df_two_rows,
                          tbl_unsafe_trusted_ids = False, tbl_universe = 0\<rparr>],
          universes = 1\<rparr>, [])"
    by (simp add: table_from_parquet_def r build_two_rows table_two_rows_def graph_after_two_rows_def)
  from table_from_parquet_ignores_id_arguments [of example_env "()" "Some [''a'']" True empty_graph]
  have e2: "table_from_parquet example_env () (Some [''a'']) True empty_graph
     = table_from_parquet example_env () None False empty_graph" by blast
  show ?thesis
    using e1 e2 k by simp
qed


text \<open>
  Claim C10, as amended. Whatever \<open>StreamGenerator.table_from_pandas\<close> returns or raises,
  the caller's data frame has afterwards the columns \<open>_time\<close>, \<open>_worker\<close> and \<open>_diff\<close>: its
  own where it had them, and columns of 2, 0 and 1 where it had not, so it has changed
  when one was missing. When the pseudo-columns of a data frame are integer columns and
  its time column has an odd entry and no negative one, \<open>_validate_dataframe\<close> and with it
  the module-level \<open>table_from_pandas\<close> leave the caller's data frame with every entry of
  the time column doubled in the dtype of the column, which differs from what it was;
  where every doubled entry fits the dtype, the column holds the doubles. When the time
  column has a negative entry, they leave the caller's data frame as it was.
\<close>

theorem dataframe_mutated_in_place:
  "(df_index (snd (snd (StreamGenerator_table_from_pandas senv df id_from unsafe schema st))) = df_index df
     \<and> has_column (snd (snd (StreamGenerator_table_from_pandas senv df id_from unsafe schema st))) ''_time''
     \<and> has_column (snd (snd (StreamGenerator_table_from_pandas senv df id_from unsafe schema st))) ''_worker''
     \<and> has_column (snd (snd (StreamGenerator_table_from_pandas senv df id_from unsafe schema st))) ''_diff''
     \<and> (\<forall>name. map_of (df_columns (snd (snd (StreamGenerator_table_from_pandas senv df id_from unsafe schema st)))) name
          = (if has_column df name then map_of (df_columns df) name
             else if name = ''_time'' then Some (IntColumn Int64 (replicate (len_df df) 2))
             else if name = ''_worker'' then Some (IntColumn Int64 (replicate (len_df df) 0))
             else if name = ''_diff'' then Some (IntColumn Int64 (replicate (len_df df) 1))
             else None))
     \<and> (\<not> (has_column df ''_time'' \<and> has_column df ''_worker'' \<and> has_column df ''_diff'') \<longrightarrow>
          snd (snd (StreamGenerator_table_from_pandas senv df id_from unsafe schema st)) \<noteq> df))
   \<and> (integer_pseudocolumns (pseudocolumns_extra env) df' \<and> time_column df' = Some (d, ts)
        \<and> \<not> list_ex (\<lambda>t. t < 0) ts \<and> list_ex (\<lambda>t. t mod 2 = 1) ts \<longrightarrow>
         fst (snd (validate_dataframe (pseudocolumns_extra env) df'))
           = set_column TIME_PSEUDOCOLUMN (IntColumn d (map (\<lambda>t. wrap d (2 * t)) ts)) df'
       \<and> fst (snd (snd (table_from_pandas env df' id_from' flag None G)))
           = set_column TIME_PSEUDOCOLUMN (IntColumn d (map (\<lambda>t. wrap d (2 * t)) ts)) df'
       \<and> set_column TIME_PSEUDOCOLUMN (IntColumn d (map (\<lambda>t. wrap d (2 * t)) ts)) df' \<noteq> df'
       \<and> (list_all (\<lambda>t. fits d (2 * t)) ts \<longrightarrow>
            fst (snd (snd (table_from_pandas env df' id_from' flag None G)))
              = set_column TIME_PSEUDOCOLUMN (IntColumn d (map (\<lambda>t. 2 * t) ts)) df'))
   \<and> (integer_pseudocolumns (pseudocolumns_extra env) df' \<and> time_column df' = Some (d, ts)
        \<and> list_ex (\<lambda>t. t < 0) ts \<longrightarrow>
         fst (snd (validate_dataframe (pseudocolumns_extra env) df')) = df'
       \<and> fst (snd (snd (table_from_pandas env df' id_from' flag None G))) = df')"
proof (intro conjI impI allI)
  let ?d = "snd (snd (StreamGenerator_table_from_pandas senv df id_from unsafe schema st))"
  have d: "?d = with_stream_columns df" by (rule StreamGenerator_table_from_pandas_df)
  show "df_index ?d = df_index df" by (simp only: d with_stream_columns_index)
  show "has_column ?d ''_time''" using with_stream_columns_has[of df] by (simp only: d)
  show "has_column ?d ''_worker''" using with_stream_columns_has[of df] by (simp only: d)
  show "has_column ?d ''_diff''" using with_stream_columns_has[of df] by (simp only: d)
  show "map_of (df_columns ?d) name
          = (if has_column df name then map_of (df_columns df) name
             else if name = ''_time'' then Some (IntColumn Int64 (replicate (len_df df) 2))
             else if name = ''_worker'' then Some (IntColumn Int64 (replicate (len_df df) 0))
             else if name = ''_diff'' then Some (IntColumn Int64 (replicate (len_df df) 1))
             else None)" for name
    unfolding d by (rule with_stream_columns_map_of)
  assume "\<not> (has_column df ''_time'' \<and> has_column df ''_worker'' \<and> has_column df ''_diff'')"
  then show "?d \<noteq> df" unfolding d by (rule with_stream_columns_changes)
next
  assume a: "integer_pseudocolumns (pseudocolumns_extra env) df' \<and> time_column df' = Some (d, ts)
        \<and> \<not> list_ex (\<lambda>t. t < 0) ts \<and> list_ex (\<lambda>t. t mod 2 = 1) ts"
  then have v: "snd (validate_dataframe (pseudocolumns_extra env) df')
      = (set_column TIME_PSEUDOCOLUMN (IntColumn d (map (\<lambda>t. wrap d (2 * t)) ts)) df',
         [doubled_msg])"
    using validate_dataframe_doubles[of "pseudocolumns_extra env" df' d ts] by blast
  then show v1: "fst (snd (validate_dataframe (pseudocolumns_extra env) df'))
           = set_column TIME_PSEUDOCOLUMN (IntColumn d (map (\<lambda>t. wrap d (2 * t)) ts)) df'"
    by simp
  then show v2: "fst (snd (snd (table_from_pandas env df' id_from' flag None G)))
           = set_column TIME_PSEUDOCOLUMN (IntColumn d (map (\<lambda>t. wrap d (2 * t)) ts)) df'"
    by (simp add: table_from_pandas_df)
  have "map_of (df_columns df') TIME_PSEUDOCOLUMN = Some (IntColumn d ts)"
    using a by (simp add: time_column_map_of)
  moreover have "IntColumn d (map (\<lambda>t. wrap d (2 * t)) ts) \<noteq> IntColumn d ts"
    using a doubled_differs[of ts d] by simp
  ultimately show "set_column TIME_PSEUDOCOLUMN (IntColumn d (map (\<lambda>t. wrap d (2 * t)) ts)) df'
      \<noteq> df'"
    by (intro set_column_neq) simp
  assume "list_all (\<lambda>t. fits d (2 * t)) ts"
  then show "fst (snd (snd (table_from_pandas env df' id_from' flag None G)))
              = set_column TIME_PSEUDOCOLUMN (IntColumn d (map (\<lambda>t. 2 * t) ts)) df'"
    using v2 by (simp add: map_wrap_fits)
next
  assume "integer_pseudocolumns (pseudocolumns_extra env) df' \<and> time_column df' = Some (d, ts)
        \<and> list_ex (\<lambda>t. t < 0) ts"
  then have "validate_dataframe (pseudocolumns_extra env) df'
      = (Some (ValueError negative_times_msg), df', [])"
    using validate_dataframe_negative[of "pseudocolumns_extra env" df' d ts] by blast
  then show n1: "fst (snd (validate_dataframe (pseudocolumns_extra env) df')) = df'" by simp
  then show "fst (snd (snd (table_from_pandas env df' id_from' flag None G))) = df'"
    by (simp add: table_from_pandas_df)
qed

theorem dataframe_mutated_in_place_witness:
  "snd (snd (StreamGenerator_table_from_pandas example_stream_env df_two_rows None False None
        (initial_generator :: (int, string) stream_generator)))
     = \<lparr>df_index = IntColumn Int64 [0, 1],
        df_columns = [(''a'', ObjectColumn [''x'', ''y'']), (''_time'', IntColumn Int64 [2, 2]),
                      (''_worker'', IntColumn Int64 [0, 0]), (''_diff'', IntColumn Int64 [1, 1])]\<rparr>
   \<and> \<not> has_column df_two_rows ''_time''
   \<and> integer_pseudocolumns (pseudocolumns_extra example_env) df_time_1
   \<and> time_column df_time_1 = Some (Int64, [1])
   \<and> list_all (\<lambda>t. fits Int64 (2 * t)) [1]
   \<and> fst (snd (snd (table_from_pandas example_env df_time_1 None False None empty_graph))) = df_time_2
   \<and> df_time_2 \<noteq> df_time_1
   \<and> integer_pseudocolumns (pseudocolumns_extra example_env) df_time_negative_odd
   \<and> time_column df_time_negative_odd = Some (Int64, [- 2, 3])
   \<and> fst (snd (snd (table_from_pandas example_env df_time_negative_odd None False None empty_graph)))
       = df_time_negative_odd"
proof -
  have d: "integer_pseudocolumns (pseudocolumns_extra example_env) df_time_1
        \<and> time_column df_time_1 = Some (Int64, [1])
        \<and> \<not> list_ex (\<lambda>t. t < 0) [1 :: int] \<and> list_ex (\<lambda>t. t mod 2 = 1) [1 :: int]"
    by (simp add: integer_pseudocolumns_def time_column_def df_time_1_def PANDAS_PSEUDOCOLUMNS_def
        TIME_PSEUDOCOLUMN_def DIFF_PSEUDOCOLUMN_def non_integer_column_def example_env_def)
  have f: "list_all (\<lambda>t. fits Int64 (2 * t)) [1]" by (simp add: fits_def)
  have dn: "integer_pseudocolumns (pseudocolumns_extra example_env) df_time_negative_odd
        \<and> time_column df_time_negative_odd = Some (Int64, [- 2, 3])
        \<and> list_ex (\<lambda>t. t < 0) [- 2, 3 :: int]"
    by (simp add: integer_pseudocolumns_def time_column_def df_time_negative_odd_def
        PANDAS_PSEUDOCOLUMNS_def TIME_PSEUDOCOLUMN_def DIFF_PSEUDOCOLUMN_def non_integer_column_def
        example_env_def)
  have h: "\<not> has_column df_two_rows ''_time''" by (simp add: has_column_def df_two_rows_def)
  note t1 = dataframe_mutated_in_place
      [of example_stream_env df_two_rows None False None "initial_generator :: (int, string) stream_generator"
          example_env df_time_1 Int64 "[1]" None False empty_graph]
  note t2 = dataframe_mutated_in_place
      [of example_stream_env df_two_rows None False None "initial_generator :: (int, string) stream_generator"
          example_env df_time_negative_odd Int64 "[- 2, 3]" None False empty_graph]
  have s: "snd (snd (StreamGenerator_table_from_pandas example_stream_env df_two_rows None False None
        (initial_generator :: (int, string) stream_generator)))
     = \<lparr>df_index = IntColumn Int64 [0, 1],
        df_columns = [(''a'', ObjectColumn [''x'', ''y'']), (''_time'', IntColumn Int64 [2, 2]),
                      (''_worker'', IntColumn Int64 [0, 0]), (''_diff'', IntColumn Int64 [1, 1])]\<rparr>"
    by (simp add: StreamGenerator_table_from_pandas_df with_stream_columns_def
        add_missing_column_def has_column_def set_column_def len_df_def df_two_rows_def
        numeral_2_eq_2)
  have e: "set_column TIME_PSEUDOCOLUMN (IntColumn Int64 (map (\<lambda>t. 2 * t) [1])) df_time_1 = df_time_2"
    by (simp add: set_column_def df_time_1_def df_time_2_def TIME_PSEUDOCOLUMN_def)
  from t1 d f
  have k: "fst (snd (snd (table_from_pandas example_env df_time_1 None False None empty_graph)))
      = set_column TIME_PSEUDOCOLUMN (IntColumn Int64 (map (\<lambda>t. 2 * t) [1])) df_time_1"
    by blast
  from t1 d
  have k': "set_column TIME_PSEUDOCOLUMN (IntColumn Int64 (map (\<lambda>t. wrap Int64 (2 * t)) [1])) df_time_1
      \<noteq> df_time_1"
    by blast
  have w: "map (\<lambda>t. wrap Int64 (2 * t)) [1] = map (\<lambda>t. 2 * t) [1]"
    using f by (rule map_wrap_fits)
  have c1: "fst (snd (snd (table_from_pandas example_env df_time_1 None False None empty_graph)))
      = df_time_2" using k e by simp
  have c2: "df_time_2 \<noteq> df_time_1" using k' e w by simp
  from t2 dn
  have c3: "fst (snd (snd (table_from_pandas example_env df_time_negative_odd None False None empty_graph)))
       = df_time_negative_odd"
    by blast
  show ?thesis
    using s h d f dn c1 c2 c3 by simp
qed

text \<open>
  The claim as stated fails on a data frame whose time column is \<open>[-2, 3]\<close>: it has an
  odd entry, the validation raises on the negative one, and the data frame is unchanged.
  It fails as well on a time column \<open>[2 ^ 62 + 1]\<close> of dtype \<open>int64\<close>: the entry left in
  the caller's data frame is \<open>-9223372036854775806\<close>, not its double.
\<close>

theorem odd_time_with_negative_not_doubled_counterexample:
  "time_column df_time_negative_odd = Some (Int64, [- 2, 3])
   \<and> list_ex (\<lambda>t. t mod 2 = 1) [- 2, 3 :: int]
   \<and> validate_dataframe [] df_time_negative_odd
       = (Some (ValueError negative_times_msg), df_time_negative_odd, [])
   \<and> table_from_pandas example_env df_time_negative_odd None False None empty_graph
       = (Inl (ValueError negative_times_msg), empty_graph, df_time_negative_odd, [])
   \<and> fst (snd (snd (table_from_pandas example_env df_time_int64 None False None empty_graph)))
       = \<lparr>df_index = IntColumn Int64 [0],
          df_columns = [(''a'', ObjectColumn [''x'']),
                        (''__time__'', IntColumn Int64 [- 9223372036854775806])]\<rparr>"
proof -
  have n: "time_column df_time_negative_odd = Some (Int64, [- 2, 3])
   \<and> list_ex (\<lambda>t. t mod 2 = 1) [- 2, 3 :: int]
   \<and> validate_dataframe [] df_time_negative_odd
       = (Some (ValueError negative_times_msg), df_time_negative_odd, [])
   \<and> table_from_pandas example_env df_time_negative_odd None False None empty_graph
       = (Inl (ValueError negative_times_msg), empty_graph, df_time_negative_odd, [])"
    by (simp add: build_defs time_column_def df_time_negative_odd_def)
  have v: "validate_dataframe [] df_time_int64
      = (None,
         \<lparr>df_index = IntColumn Int64 [0],
            df_columns = [(''a'', ObjectColumn [''x'']),
                          (''__time__'', IntColumn Int64 [- 9223372036854775806])]\<rparr>,
         [doubled_msg])"
    by (simp add: build_defs df_time_int64_def)
  have p: "pseudocolumns_extra example_env = []" by (simp add: example_env_def)
  have o: "fst (snd (snd (table_from_pandas example_env df_time_int64 None False None empty_graph)))
       = \<lparr>df_index = IntColumn Int64 [0],
          df_columns = [(''a'', ObjectColumn [''x'']),
                        (''__time__'', IntColumn Int64 [- 9223372036854775806])]\<rparr>"
    by (simp add: table_from_pandas_df p v)
  from n o show ?thesis by simp
qed

section \<open>Printing: the structure of the function\<close>

text \<open>
  \<open>_compute_and_print_internal\<close> in terms of its parts: nothing is printed for a table
  without columns whose identifiers are hidden; otherwise the rows are printed in the
  order of the sort, or in the order of arrival when the sort raised a \<open>ValueError\<close>, and
  any other exception of the sort is the outcome.
\<close>

lemma compute_and_print_internal_unfold:
  "compute_and_print_internal P captured table_columns squash_updates include_id short_pointers n_rows =
     (if displayed_columns table_columns squash_updates = [] \<and> \<not> include_id then Inr []
      else
        case sorted_output P captured squash_updates of
          Inr rows \<Rightarrow>
            print_table P (none_text include_id (displayed_columns table_columns squash_updates))
              include_id short_pointers (displayed_columns table_columns squash_updates) rows n_rows
        | Inl e \<Rightarrow>
            if is_ValueError e then
              print_table P (none_text include_id (displayed_columns table_columns squash_updates))
                include_id short_pointers (displayed_columns table_columns squash_updates)
                (captured_output P captured squash_updates) n_rows
            else Inl e)"
proof -
  have fr: "(\<lambda>(key, values).
                (if include_id then [format_value P none short_pointers (VPointer key)] else [])
                @ map (format_value P none short_pointers) values)
      = format_row P none include_id short_pointers" for none
    by (auto simp: format_row_def fun_eq_iff)
  have hd: "(if include_id then (if columns \<noteq> [] then '''' else ''id'') # columns else columns)
      = header_row include_id columns" for columns
    by (simp add: header_row_def)
  have nt: "(if include_id \<or> length columns > 1 then '''' else ''None'') = none_text include_id columns"
    for columns
    by (simp add: none_text_def)
  show ?thesis
  proof (cases "sorted_output P captured squash_updates")
    case (Inr rows)
    then show ?thesis
      unfolding compute_and_print_internal_def Let_def fr hd nt
      unfolding displayed_columns_def[symmetric] captured_output_def[symmetric] sort_key_def[symmetric]
        sorted_output_def[symmetric]
      by (simp add: print_table_def)
  next
    case (Inl e)
    then show ?thesis
      unfolding compute_and_print_internal_def Let_def fr hd nt
      unfolding displayed_columns_def[symmetric] captured_output_def[symmetric] sort_key_def[symmetric]
        sorted_output_def[symmetric]
      by (cases e) (simp_all add: print_table_def)
  qed
qed

lemma none_text_eq:
  "\<not> (columns = [] \<and> \<not> include_id) \<Longrightarrow> none_text include_id columns = spec_none_text columns include_id"
  by (cases columns) (auto simp: spec_none_text_def none_text_def)

lemma format_row_cell:
  assumes "j < length (snd row)"
  shows "format_row P none include_id short_pointers row ! (j + (if include_id then 1 else 0))
           = format_value P none short_pointers (snd row ! j)"
  using assms by (simp add: format_row_def nth_append)

lemma format_value_None: "format_value P none short_pointers VNone = none"
  by (simp add: format_value_def)






text \<open>The examples, evaluated.\<close>

lemmas print_eval_defs =
  compute_and_print_def compute_and_print_update_stream_def
  displayed_columns_def captured_output_def sort_key_def sorted_output_def header_row_def
  format_row_def print_table_def spec_none_text_def none_text_def py_sorted_def squashed_key_def
  update_key_def NoneAwareComparisonWrapper_def islice_def format_value_def ljust_def is_space_def
  rstrip_def print_rows_def Let_def example_python_def unordered_python_def example_eq_def
  example_lt_def unordered_lt_def captured_none_def captured_others_def captured_complex_def
  captured_mixed_def TIME_PSEUDOCOLUMN_def DIFF_PSEUDOCOLUMN_def str_int_def str_nat.simps
  digit_char_def

lemma sorted_none_squashed:
  "sorted_output example_python captured_none True = Inr [(''^A'', [VNone])]"
  by (simp add: print_eval_defs)

lemma sorted_none_stream:
  "sorted_output example_python captured_none False = Inr [(''^A'', [VNone, VInt 0, VInt 1])]"
  by (simp add: print_eval_defs)

lemma print_none_bare:
  "print_table example_python ''None'' False False [''a''] [(''^A'', [VNone])] None
     = Inr [''a'', ''None'']"
  by (simp add: print_eval_defs)

lemma print_none_with_id:
  "print_table example_python '''' True False [''a''] [(''^A'', [VNone])] None
     = Inr [''   | a'', ''^A |'']"
  by (simp add: print_eval_defs)

lemma print_none_stream:
  "print_table example_python '''' False False [''a'', ''__time__'', ''__diff__'']
       [(''^A'', [VNone, VInt 0, VInt 1])] None
     = Inr [''a | __time__ | __diff__'', ''  | 0        | 1'']"
  by (simp add: print_eval_defs)

lemma sorted_others:
  "sorted_output example_python captured_others True = Inl (ValueError ambiguous_msg)"
  by (simp add: print_eval_defs)





section \<open>Printing: the claims\<close>

text \<open>
  Claim C7. When a table is printed, a \<open>None\<close> value is rendered as the literal string
  \<open>None\<close> exactly when the table printed has a single column and the identifiers are
  hidden, and as the empty string in every other case: the function prints what the
  parts print with the text of the specification for \<open>None\<close>; a cell of a row that holds
  \<open>None\<close> is that text; the text is empty in the update-stream mode, whose two
  pseudo-columns are among the columns, when the identifiers are shown, and when the
  table has more than one column; it is \<open>None\<close> for a table of one column printed
  squashed with the identifiers hidden.
\<close>

theorem none_is_literal_only_for_single_bare_column:
  "compute_and_print_internal P captured table_columns squash_updates include_id short_pointers n_rows =
     (if displayed_columns table_columns squash_updates = [] \<and> \<not> include_id then Inr []
      else
        case sorted_output P captured squash_updates of
          Inr rows \<Rightarrow>
            print_table P (spec_none_text (displayed_columns table_columns squash_updates) include_id)
              include_id short_pointers (displayed_columns table_columns squash_updates) rows n_rows
        | Inl e \<Rightarrow>
            if is_ValueError e then
              print_table P (spec_none_text (displayed_columns table_columns squash_updates) include_id)
                include_id short_pointers (displayed_columns table_columns squash_updates)
                (captured_output P captured squash_updates) n_rows
            else Inl e)
   \<and> (\<forall>row j. j < length (snd row) \<and> snd row ! j = VNone \<longrightarrow>
         format_row P (spec_none_text (displayed_columns table_columns squash_updates) include_id)
             include_id short_pointers row ! (j + (if include_id then 1 else 0))
           = (if length (displayed_columns table_columns squash_updates) = 1 \<and> \<not> include_id
              then ''None'' else ''''))
   \<and> spec_none_text (displayed_columns table_columns False) include_id = ''''
   \<and> spec_none_text (displayed_columns table_columns squash_updates) True = ''''
   \<and> (1 < length table_columns \<longrightarrow>
         spec_none_text (displayed_columns table_columns squash_updates) include_id = '''')
   \<and> spec_none_text (displayed_columns [c] True) False = ''None''"
proof (intro conjI allI impI)
  show "compute_and_print_internal P captured table_columns squash_updates include_id short_pointers n_rows =
     (if displayed_columns table_columns squash_updates = [] \<and> \<not> include_id then Inr []
      else
        case sorted_output P captured squash_updates of
          Inr rows \<Rightarrow>
            print_table P (spec_none_text (displayed_columns table_columns squash_updates) include_id)
              include_id short_pointers (displayed_columns table_columns squash_updates) rows n_rows
        | Inl e \<Rightarrow>
            if is_ValueError e then
              print_table P (spec_none_text (displayed_columns table_columns squash_updates) include_id)
                include_id short_pointers (displayed_columns table_columns squash_updates)
                (captured_output P captured squash_updates) n_rows
            else Inl e)"
  proof (cases "displayed_columns table_columns squash_updates = [] \<and> \<not> include_id")
    case True
    then show ?thesis by (simp add: compute_and_print_internal_unfold)
  next
    case False
    show ?thesis
      unfolding compute_and_print_internal_unfold none_text_eq[OF False] ..
  qed
next
  fix row :: "'a \<times> 'a value list" and j
  assume a: "j < length (snd row) \<and> snd row ! j = VNone"
  then have "format_row P (spec_none_text (displayed_columns table_columns squash_updates) include_id)
             include_id short_pointers row ! (j + (if include_id then 1 else 0))
           = spec_none_text (displayed_columns table_columns squash_updates) include_id"
    by (simp add: format_row_cell format_value_None)
  then show "format_row P (spec_none_text (displayed_columns table_columns squash_updates) include_id)
             include_id short_pointers row ! (j + (if include_id then 1 else 0))
           = (if length (displayed_columns table_columns squash_updates) = 1 \<and> \<not> include_id
              then ''None'' else '''')"
    by (simp add: spec_none_text_def)
next
  show "spec_none_text (displayed_columns table_columns False) include_id = ''''"
    by (simp add: spec_none_text_def displayed_columns_def)
  show "spec_none_text (displayed_columns table_columns squash_updates) True = ''''"
    by (simp add: spec_none_text_def)
  show "spec_none_text (displayed_columns [c] True) False = ''None''"
    by (simp add: spec_none_text_def displayed_columns_def)
next
  assume "1 < length table_columns"
  then show "spec_none_text (displayed_columns table_columns squash_updates) include_id = ''''"
    by (simp add: spec_none_text_def displayed_columns_def)
qed

text \<open>
  The scenario of the specification: a table of the single column \<open>a\<close> with one row holding
  \<open>None\<close> prints the line \<open>None\<close> when the identifiers are hidden and an empty cell when
  they are shown; its update stream prints an empty cell as well.
\<close>

theorem none_is_literal_only_for_single_bare_column_witness:
  "compute_and_print example_python captured_none [''a''] False False None = Inr [''a'', ''None'']
   \<and> compute_and_print example_python captured_none [''a''] True False None
       = Inr [''   | a'', ''^A |'']
   \<and> compute_and_print_update_stream example_python captured_none [''a''] False False None
       = Inr [''a | __time__ | __diff__'', ''  | 0        | 1'']
   \<and> (0 :: nat) < length (snd (''^A'', [VNone :: string value]))
   \<and> snd (''^A'', [VNone :: string value]) ! 0 = VNone
   \<and> format_row example_python (spec_none_text (displayed_columns [''a''] True) False) False False
         (''^A'', [VNone]) ! 0 = ''None''
   \<and> format_row example_python (spec_none_text (displayed_columns [''a''] True) True) True False
         (''^A'', [VNone]) ! 1 = ''''"
proof -
  note bare = none_is_literal_only_for_single_bare_column
    [of example_python captured_none "[''a'']" True False False None, THEN conjunct1]
  note shown = none_is_literal_only_for_single_bare_column
    [of example_python captured_none "[''a'']" True True False None, THEN conjunct1]
  note stream = none_is_literal_only_for_single_bare_column
    [of example_python captured_none "[''a'']" False False False None, THEN conjunct1]
  note cell = none_is_literal_only_for_single_bare_column
    [of example_python captured_none "[''a'']" True False False None,
     THEN conjunct2, THEN conjunct1, rule_format, of 0 "(''^A'', [VNone])"]
  note cell_shown = none_is_literal_only_for_single_bare_column
    [of example_python captured_none "[''a'']" True True False None,
     THEN conjunct2, THEN conjunct1, rule_format, of 0 "(''^A'', [VNone])"]
  have d: "displayed_columns [''a''] True = [''a'']"
    "displayed_columns [''a''] False = [''a'', ''__time__'', ''__diff__'']"
    by (simp_all add: displayed_columns_def TIME_PSEUDOCOLUMN_def DIFF_PSEUDOCOLUMN_def)
  have n: "spec_none_text [''a''] False = ''None''" "spec_none_text [''a''] True = ''''"
    "spec_none_text [''a'', ''__time__'', ''__diff__''] False = ''''"
    by (simp_all add: spec_none_text_def)
  have 1: "compute_and_print example_python captured_none [''a''] False False None = Inr [''a'', ''None'']"
    unfolding compute_and_print_def bare
    by (simp add: d n sorted_none_squashed print_none_bare)
  have 2: "compute_and_print example_python captured_none [''a''] True False None
       = Inr [''   | a'', ''^A |'']"
    unfolding compute_and_print_def shown
    by (simp add: d n sorted_none_squashed print_none_with_id)
  have 3: "compute_and_print_update_stream example_python captured_none [''a''] False False None
       = Inr [''a | __time__ | __diff__'', ''  | 0        | 1'']"
    unfolding compute_and_print_update_stream_def stream
    by (simp add: d n sorted_none_stream print_none_stream)
  have 4: "format_row example_python (spec_none_text (displayed_columns [''a''] True) False) False False
         (''^A'', [VNone]) ! 0 = ''None''"
    using cell by (simp add: d)
  have 5: "format_row example_python (spec_none_text (displayed_columns [''a''] True) True) True False
         (''^A'', [VNone]) ! 1 = ''''"
    using cell_shown by (simp add: d)
  show ?thesis
    using 1 2 3 4 5 by simp
qed




end
